theory Spec2Isabelle
  imports Complex_Main
begin

section \<open>farm-sequential.js: data model\<close>

text \<open>
  The script talks to three kinds of collaborators whose code is not part of the
  repository: the command line parser (yargs), the blockchain library (ethers) with the
  remote node behind it, and the file system. Their answers are inputs of the model:
  the record \<open>world\<close> below gives, for every call the script can make, what that call
  returns or throws. Calls that reach the network or the disk, the constructors of the
  provider and of the funder wallet, the creation of a wallet and the call
  \<open>ethers.BigInt\<close> may throw; the conversions \<open>parseEther\<close> and
  \<open>encodeFunctionData\<close> are taken to return a value.

  A thrown JavaScript error is a value with a name and a message.
\<close>

datatype js_error = JsError (err_name: string) (err_message: string)

text \<open>
  A JavaScript number, as the option parser hands it over for \<open>--rate\<close>: a finite value
  (a rational, so rounding is left out), an infinity, or \<open>NaN\<close>, which is what a text
  that is not a number becomes. \<open>Math.max\<close> returns \<open>NaN\<close> as soon as one argument is
  \<open>NaN\<close>, and so does the product.
\<close>

datatype number = Num rat | Infinity | NegInfinity | NaN

fun Math_max :: "number \<Rightarrow> number \<Rightarrow> number" where
  "Math_max NaN y = NaN"
| "Math_max x NaN = NaN"
| "Math_max Infinity y = Infinity"
| "Math_max x Infinity = Infinity"
| "Math_max NegInfinity y = y"
| "Math_max x NegInfinity = x"
| "Math_max (Num x) (Num y) = Num (max x y)"

fun sign_times :: "number \<Rightarrow> rat \<Rightarrow> number" where
  "sign_times z y =
     (if y = 0 then NaN
      else if 0 < y then z
      else (case z of Infinity \<Rightarrow> NegInfinity | NegInfinity \<Rightarrow> Infinity | other \<Rightarrow> other))"

fun js_times :: "number \<Rightarrow> number \<Rightarrow> number" where
  "js_times NaN y = NaN"
| "js_times x NaN = NaN"
| "js_times (Num x) (Num y) = Num (x * y)"
| "js_times (Num x) z = sign_times z x"
| "js_times z (Num y) = sign_times z y"
| "js_times Infinity Infinity = Infinity"
| "js_times NegInfinity NegInfinity = Infinity"
| "js_times Infinity NegInfinity = NegInfinity"
| "js_times NegInfinity Infinity = NegInfinity"

text \<open>\<open>String(err)\<close>, that is \<open>Error.prototype.toString\<close>.\<close>

definition String_of :: "js_error \<Rightarrow> string" where
  "String_of e =
     (if err_message e = [] then err_name e
      else if err_name e = [] then err_message e
      else err_name e @ '': '' @ err_message e)"

text \<open>\<open>err.message || err\<close>, as the console prints it.\<close>

definition message_or_err :: "js_error \<Rightarrow> string" where
  "message_or_err e = (if err_message e \<noteq> [] then err_message e else String_of e)"

text \<open>Decimal rendering of a loop index, as a template literal does it.\<close>

fun digits :: "nat \<Rightarrow> string" where
  "digits n =
     (if n < 10 then [char_of (48 + n)]
      else digits (n div 10) @ [char_of (48 + n mod 10)])"

declare digits.simps [simp del]

record cli =
  cli_num :: "int option"
  cli_rate :: "number option"
  cli_amount :: "string option"
  cli_useHd :: "bool option"
  cli_saveWallets :: "bool option"
  cli_rpc :: "string option"
  cli_contract :: "string option"
  cli_message :: "string option"

record env =
  env_RPC_URL :: "string option"
  env_CONTRACT_ADDRESS :: "string option"
  env_FUNDER_PRIVATE_KEY :: "string option"
  env_MNEMONIC :: "string option"

record argv =
  num :: int
  rate :: number
  amount :: string
  useHd :: bool
  saveWallets :: bool
  rpc :: "string option"
  contract :: "string option"
  message :: string

text \<open>The option table of lines 9 to 53: a flag that is not given takes its default.\<close>

definition or_default :: "'a option \<Rightarrow> 'a \<Rightarrow> 'a" where
  "or_default v d = (case v of Some x \<Rightarrow> x | None \<Rightarrow> d)"

definition or_env :: "string option \<Rightarrow> string option \<Rightarrow> string option" where
  "or_env v d = (case v of Some x \<Rightarrow> Some x | None \<Rightarrow> d)"

definition yargs :: "cli \<Rightarrow> env \<Rightarrow> argv" where
  "yargs c en =
     \<lparr> num = or_default (cli_num c) 20,
       rate = or_default (cli_rate c) (Num 2),
       amount = or_default (cli_amount c) ''0.000002'',
       useHd = or_default (cli_useHd c) False,
       saveWallets = or_default (cli_saveWallets c) True,
       rpc = or_env (cli_rpc c) (env_RPC_URL en),
       contract = or_env (cli_contract c) (env_CONTRACT_ADDRESS en),
       message = or_default (cli_message c) ''Hello from farm!'' \<rparr>"

text \<open>\<open>!x\<close> for a string that may be undefined: undefined and the empty string are falsy.\<close>

definition falsy :: "string option \<Rightarrow> bool" where
  "falsy v = (case v of None \<Rightarrow> True | Some s \<Rightarrow> s = [])"

text \<open>The constants of lines 70 to 82.\<close>

definition RPC_URL :: "argv \<Rightarrow> string" where
  "RPC_URL a = or_default (rpc a) []"

definition CONTRACT_ADDRESS :: "argv \<Rightarrow> string" where
  "CONTRACT_ADDRESS a = or_default (contract a) []"

definition FUND_AMOUNT :: "argv \<Rightarrow> string" where
  "FUND_AMOUNT a = amount a"

definition NUM :: "argv \<Rightarrow> int" where
  "NUM a = num a"

definition RATE_SECONDS :: "argv \<Rightarrow> number" where
  "RATE_SECONDS a = Math_max (Num 1) (rate a)"

definition USE_HD :: "argv \<Rightarrow> bool" where
  "USE_HD a = useHd a"

definition SAVE_WALLETS :: "argv \<Rightarrow> bool" where
  "SAVE_WALLETS a = saveWallets a"

definition MESSAGE_BASE :: "argv \<Rightarrow> string" where
  "MESSAGE_BASE a = message a"

definition MNEMONIC :: "env \<Rightarrow> string option" where
  "MNEMONIC en = (if falsy (env_MNEMONIC en) then None else env_MNEMONIC en)"

definition HD_PATH_BASE :: string where
  "HD_PATH_BASE = ''m/44'' @ [CHR 0x27] @ ''/60'' @ [CHR 0x27] @ ''/0'' @ [CHR 0x27] @ ''/0/''"

record wallet =
  address :: string
  privateKey :: string

record SavedWallet =
  sw_index :: nat
  sw_address :: string
  sw_privateKey :: string

text \<open>
  An entry of \<open>results\<close>. A key that the object literal does not have is \<open>None\<close>.
\<close>

record IterationResult =
  index :: nat
  r_address :: "string option"
  txHash :: "string option"
  status :: string
  step :: "string option"
  error :: "string option"

record RunSummary =
  s_rpc :: string
  s_contract :: string
  s_date :: string
  s_rateSeconds :: number
  s_fundAmount :: string
  s_results :: "IterationResult list"

text \<open>
  What the run does to the outside, in order. A file event stands for a write that
  returned; a network event stands for a call that was made, whatever it returned.
  A delay is the number of milliseconds that \<open>sleep\<close> is called with. \<open>Uncaught\<close> is an
  error thrown at the top level of the module, outside \<open>main\<close>, which ends the process
  with status 1. \<open>console.log\<close> lines are left out.
\<close>

datatype event =
    ConsoleError string string
  | ConsoleWarn string string
  | Uncaught js_error
  | Sleep number
  | WriteWallets "SavedWallet list"
  | WriteResults RunSummary
  | FunderSend string nat
  | GetBalance string
  | EstimateGas string string string
  | WalletSend string string string nat
  | Wait string

text \<open>
  \<open>new_JsonRpcProvider\<close> and \<open>new_Wallet\<close> are the constructor calls of lines 79 and 80,
  given the endpoint and the funder key: \<open>None\<close> when the object is constructed, the
  error when the constructor throws, as it does for a key that is not well formed.
  \<open>ethers_BigInt\<close> is the call \<open>ethers.BigInt(n)\<close> of line 141: its value, or the
  \<open>TypeError\<close> of calling a member that the \<open>ethers\<close> namespace does not have. The other
  fields are indexed by the iteration and, inside a retried operation, by the attempt.
\<close>

record world =
  new_JsonRpcProvider :: "string \<Rightarrow> js_error option"
  new_Wallet :: "string \<Rightarrow> js_error option"
  ethers_BigInt :: "nat \<Rightarrow> js_error + nat"
  createRandom :: "nat \<Rightarrow> js_error + wallet"
  fromMnemonic_derivePath :: "string \<Rightarrow> string \<Rightarrow> js_error + wallet"
  writeFileSync_wallets :: "nat \<Rightarrow> js_error option"
  writeFileSync_results :: "js_error option"
  parseEther :: "string \<Rightarrow> nat"
  funder_sendTransaction :: "nat \<Rightarrow> nat \<Rightarrow> js_error + string"
  funder_wait :: "nat \<Rightarrow> nat \<Rightarrow> js_error + string"
  getBalance :: "nat \<Rightarrow> js_error + nat"
  encodeFunctionData :: "string \<Rightarrow> string"
  estimateGas :: "nat \<Rightarrow> nat \<Rightarrow> js_error + nat"
  wallet_sendTransaction :: "nat \<Rightarrow> nat \<Rightarrow> nat \<Rightarrow> js_error + string"
  wallet_wait :: "nat \<Rightarrow> nat \<Rightarrow> js_error + string"
  toISOString :: string

record SendRes =
  sr_txHash :: string
  sr_receipt :: string

record state =
  results :: "IterationResult list"
  savedWallets :: "SavedWallet list"
  trace :: "event list"

section \<open>The operations\<close>

text \<open>
  A function that does something to the outside returns its value together with the
  events it caused. A call that can throw returns \<open>Inl\<close> of the error.
\<close>

text \<open>\<open>createWallet\<close>, lines 93 to 104.\<close>

definition createWallet :: "argv \<Rightarrow> env \<Rightarrow> world \<Rightarrow> nat \<Rightarrow> js_error + wallet" where
  "createWallet a en w i =
     (if USE_HD a then
        (case MNEMONIC en of
           None \<Rightarrow> Inl (JsError ''Error'' ''MNEMONIC required when --useHd is set.'')
         | Some m \<Rightarrow> fromMnemonic_derivePath w m (HD_PATH_BASE @ digits i))
      else createRandom w i)"

text \<open>
  \<open>fundWallet\<close>, lines 106 to 112, in iteration \<open>i\<close> at attempt \<open>k\<close>: the funder sends the
  transfer, then waits for its receipt.
\<close>

definition fundWallet ::
  "argv \<Rightarrow> world \<Rightarrow> nat \<Rightarrow> string \<Rightarrow> nat \<Rightarrow> (js_error + string) \<times> event list" where
  "fundWallet a w i addr k =
     (let sent = FunderSend addr (parseEther w (FUND_AMOUNT a)) in
      case funder_sendTransaction w i k of
        Inl e \<Rightarrow> (Inl e, [sent])
      | Inr tx \<Rightarrow>
          (case funder_wait w i k of
             Inl e \<Rightarrow> (Inl e, [sent, Wait tx])
           | Inr receipt \<Rightarrow> (Inr receipt, [sent, Wait tx])))"

text \<open>
  Modelled from the spec: \<open>pRetry\<close> is imported from the package p-retry, whose code is
  not in the repository. Section 4.4 of the specification gives its contract: run the
  operation; on a failure call the observation callback with that failure, on every
  failed attempt; retry while retries are left; when none is left, the last failure is
  the result. The operation receives the attempt number, counted from 1.
\<close>

fun pRetry ::
  "nat \<Rightarrow> (nat \<Rightarrow> (js_error + 'a) \<times> event list) \<Rightarrow> (js_error \<Rightarrow> event list) \<Rightarrow> nat
     \<Rightarrow> (js_error + 'a) \<times> event list" where
  "pRetry 0 input onFailedAttempt k =
     (case input k of
        (Inr v, evs) \<Rightarrow> (Inr v, evs)
      | (Inl e, evs) \<Rightarrow> (Inl e, evs @ onFailedAttempt e))"
| "pRetry (Suc retries) input onFailedAttempt k =
     (case input k of
        (Inr v, evs) \<Rightarrow> (Inr v, evs)
      | (Inl e, evs) \<Rightarrow>
          (case pRetry retries input onFailedAttempt (Suc k) of
             (r, evs') \<Rightarrow> (r, evs @ onFailedAttempt e @ evs')))"

text \<open>The two callbacks, lines 157 to 159 and 213 to 215.\<close>

definition store_onFailedAttempt :: "js_error \<Rightarrow> event list" where
  "store_onFailedAttempt err =
     [ConsoleWarn ''sendStoreMessageTx attempt failed:'' (message_or_err err)]"

definition fund_onFailedAttempt :: "js_error \<Rightarrow> event list" where
  "fund_onFailedAttempt err = [ConsoleWarn ''fundWallet attempt failed:'' (message_or_err err)]"

text \<open>The funding step of \<open>main\<close>, lines 211 to 216.\<close>

definition fund_with_retry ::
  "argv \<Rightarrow> world \<Rightarrow> nat \<Rightarrow> string \<Rightarrow> (js_error + string) \<times> event list" where
  "fund_with_retry a w i addr = pRetry 2 (fundWallet a w i addr) fund_onFailedAttempt 1"

text \<open>
  One attempt of the payload transaction, lines 123 to 154: encode the call, estimate
  the gas, send, wait. When the estimation throws, the \<open>catch\<close> block of lines 139 to 142
  calls \<open>ethers.BigInt(300000)\<close>; an error thrown there is not caught in the attempt,
  and then nothing is sent.
\<close>

definition store_attempt ::
  "argv \<Rightarrow> world \<Rightarrow> nat \<Rightarrow> wallet \<Rightarrow> string \<Rightarrow> nat \<Rightarrow> (js_error + SendRes) \<times> event list" where
  "store_attempt a w i wl msg k =
     (let data = encodeFunctionData w msg;
          estimated = EstimateGas (CONTRACT_ADDRESS a) (address wl) data
      in case (case estimateGas w i k of
                 Inr g \<Rightarrow> Inr g
               | Inl e \<Rightarrow> ethers_BigInt w 300000) of
           Inl thrown \<Rightarrow> (Inl thrown, [estimated])
         | Inr gasLimit \<Rightarrow>
             (let sent = WalletSend (address wl) (CONTRACT_ADDRESS a) data gasLimit
              in case wallet_sendTransaction w i k gasLimit of
                   Inl e \<Rightarrow> (Inl e, [estimated, sent])
                 | Inr hash \<Rightarrow>
                     (case wallet_wait w i k of
                        Inl e \<Rightarrow> (Inl e, [estimated, sent, Wait hash])
                      | Inr receipt \<Rightarrow>
                          (Inr \<lparr> sr_txHash = hash, sr_receipt = receipt \<rparr>,
                           [estimated, sent, Wait hash]))))"

text \<open>
  \<open>sendStoreMessageTx\<close>, lines 114 to 162. The balance is read before the retried part,
  so a failure of that read is not retried.
\<close>

definition sendStoreMessageTx ::
  "argv \<Rightarrow> world \<Rightarrow> nat \<Rightarrow> wallet \<Rightarrow> string \<Rightarrow> (js_error + SendRes) \<times> event list" where
  "sendStoreMessageTx a w i wl msg =
     (case getBalance w i of
        Inl e \<Rightarrow> (Inl e, [GetBalance (address wl)])
      | Inr b \<Rightarrow>
          (case pRetry 2 (store_attempt a w i wl msg) store_onFailedAttempt 1 of
             (r, evs) \<Rightarrow> (r, GetBalance (address wl) # evs)))"

text \<open>The four object literals pushed to \<open>results\<close>.\<close>

definition result_create :: "nat \<Rightarrow> js_error \<Rightarrow> IterationResult" where
  "result_create i err =
     \<lparr> index = i, r_address = None, txHash = None, status = ''fail'',
       step = Some ''create'', error = Some (String_of err) \<rparr>"

definition result_fund :: "nat \<Rightarrow> wallet \<Rightarrow> js_error \<Rightarrow> IterationResult" where
  "result_fund i wl err =
     \<lparr> index = i, r_address = Some (address wl), txHash = None, status = ''fail'',
       step = Some ''fund'', error = Some (String_of err) \<rparr>"

definition result_ok :: "nat \<Rightarrow> wallet \<Rightarrow> SendRes \<Rightarrow> IterationResult" where
  "result_ok i wl sendRes =
     \<lparr> index = i, r_address = Some (address wl), txHash = Some (sr_txHash sendRes),
       status = ''ok'', step = None, error = None \<rparr>"

definition result_store :: "nat \<Rightarrow> wallet \<Rightarrow> js_error \<Rightarrow> IterationResult" where
  "result_store i wl err =
     \<lparr> index = i, r_address = Some (address wl), txHash = None, status = ''fail'',
       step = Some ''store'', error = Some (String_of err) \<rparr>"

definition push :: "IterationResult \<Rightarrow> state \<Rightarrow> state" where
  "push r s = s\<lparr> results := results s @ [r] \<rparr>"

definition emit :: "event list \<Rightarrow> state \<Rightarrow> state" where
  "emit evs s = s\<lparr> trace := trace s @ evs \<rparr>"

text \<open>
  Lines 196 to 204: the wallet is added to \<open>savedWallets\<close> and the whole list is written
  to wallets.json. The write is outside every \<open>try\<close>: when it throws, the error leaves
  the loop.
\<close>

definition save_wallet ::
  "argv \<Rightarrow> world \<Rightarrow> nat \<Rightarrow> wallet \<Rightarrow> state \<Rightarrow> js_error option \<times> state" where
  "save_wallet a w i wl s =
     (if SAVE_WALLETS a then
        (let s1 = s\<lparr> savedWallets := savedWallets s @
                      [\<lparr> sw_index = i, sw_address = address wl,
                         sw_privateKey = privateKey wl \<rparr>] \<rparr>
         in case writeFileSync_wallets w i of
              Some e \<Rightarrow> (Some e, s1)
            | None \<Rightarrow> (None, emit [WriteWallets (savedWallets s1)] s1))
      else (None, s))"

text \<open>The message of iteration \<open>i\<close>, line 238.\<close>

definition message_of :: "argv \<Rightarrow> nat \<Rightarrow> string" where
  "message_of a i = MESSAGE_BASE a @ '' (#'' @ digits i @ '')''"

text \<open>Lines 233 to 269: settle, send the message, record, wait.\<close>

definition store_step :: "argv \<Rightarrow> world \<Rightarrow> nat \<Rightarrow> wallet \<Rightarrow> state \<Rightarrow> state" where
  "store_step a w i wl s =
     (let s1 = emit [Sleep (Num 1000)] s;
          msg = message_of a i;
          s2 = (case sendStoreMessageTx a w i wl msg of
                  (Inr sendRes, evs) \<Rightarrow> push (result_ok i wl sendRes) (emit evs s1)
                | (Inl err, evs) \<Rightarrow>
                    push (result_store i wl err)
                      (emit (evs @ [ConsoleError (''storeMessage failed for '' @ address wl @ '':'')
                                         (message_or_err err)]) s1))
      in emit [Sleep (js_times (RATE_SECONDS a) (Num 1000))] s2)"

text \<open>
  The body of the loop, lines 177 to 269. The first component is the error that leaves
  the loop, if any.
\<close>

definition iteration ::
  "argv \<Rightarrow> env \<Rightarrow> world \<Rightarrow> nat \<Rightarrow> state \<Rightarrow> js_error option \<times> state" where
  "iteration a en w i s =
     (case createWallet a en w i of
        Inl err \<Rightarrow>
          (None, push (result_create i err)
                   (emit [ConsoleError ''Failed to create wallet:'' (message_or_err err)] s))
      | Inr wl \<Rightarrow>
          (case save_wallet a w i wl s of
             (Some e, s1) \<Rightarrow> (Some e, s1)
           | (None, s1) \<Rightarrow>
               (case fund_with_retry a w i (address wl) of
                  (Inl err, evs) \<Rightarrow>
                    (None, push (result_fund i wl err)
                             (emit (evs @ [ConsoleError (''Funding failed for '' @ address wl @ '':'')
                                              (message_or_err err)]) s1))
                | (Inr fundRes, evs) \<Rightarrow> (None, store_step a w i wl (emit evs s1)))))"

text \<open>\<open>for (let i = 0; i < NUM; i++)\<close>, started at any \<open>i\<close>.\<close>

function loop :: "argv \<Rightarrow> env \<Rightarrow> world \<Rightarrow> nat \<Rightarrow> state \<Rightarrow> js_error option \<times> state" where
  "loop a en w i s =
     (if int i < NUM a then
        (case iteration a en w i s of
           (Some e, s') \<Rightarrow> (Some e, s')
         | (None, s') \<Rightarrow> loop a en w (Suc i) s')
      else (None, s))"
  by pat_completeness auto
termination
  by (relation "measure (\<lambda>(a, en, w, i, s). nat (NUM a - int i))") auto

declare loop.simps [simp del]

definition summary :: "argv \<Rightarrow> world \<Rightarrow> state \<Rightarrow> RunSummary" where
  "summary a w s =
     \<lparr> s_rpc = RPC_URL a, s_contract = CONTRACT_ADDRESS a, s_date = toISOString w,
       s_rateSeconds = RATE_SECONDS a, s_fundAmount = FUND_AMOUNT a,
       s_results = results s \<rparr>"

text \<open>\<open>main\<close>, lines 164 to 295.\<close>

definition main :: "argv \<Rightarrow> env \<Rightarrow> world \<Rightarrow> js_error option \<times> state" where
  "main a en w =
     (case loop a en w 0 \<lparr> results = [], savedWallets = [], trace = [] \<rparr> of
        (Some e, s) \<Rightarrow> (Some e, s)
      | (None, s) \<Rightarrow>
          (case writeFileSync_results w of
             Some e \<Rightarrow> (Some e, s)
           | None \<Rightarrow> (None, emit [WriteResults (summary a w s)] s)))"

text \<open>
  The whole script: the three checks of lines 55 to 68, the construction of the provider
  and of the funder wallet at lines 79 and 80, then \<open>main\<close> with the handler of lines 297
  to 300. An error of a constructor is thrown at the top level, where nothing catches
  it. The result is the exit status and everything the run did.
\<close>

definition program :: "cli \<Rightarrow> env \<Rightarrow> world \<Rightarrow> nat \<times> event list" where
  "program c en w =
     (let a = yargs c en in
      if falsy (rpc a) then
        (1, [ConsoleError ''RPC URL required. Set RPC_URL in .env or pass --rpc'' []])
      else if falsy (contract a) then
        (1, [ConsoleError
               ''Contract address required. Set CONTRACT_ADDRESS in .env or pass --contract'' []])
      else if falsy (env_FUNDER_PRIVATE_KEY en) then
        (1, [ConsoleError ''Funder private key required in env as FUNDER_PRIVATE_KEY'' []])
      else
        (case new_JsonRpcProvider w (RPC_URL a) of
           Some err \<Rightarrow> (1, [Uncaught err])
         | None \<Rightarrow>
             (case new_Wallet w (or_default (env_FUNDER_PRIVATE_KEY en) []) of
                Some err \<Rightarrow> (1, [Uncaught err])
              | None \<Rightarrow>
                  (case main a en w of
                     (None, s) \<Rightarrow> (0, trace s)
                   | (Some err, s) \<Rightarrow>
                       (1, trace s @ [ConsoleError ''Fatal error:'' (String_of err)])))))"

text \<open>The three start-up checks of lines 55 to 68 as one predicate.\<close>

definition config_missing :: "cli \<Rightarrow> env \<Rightarrow> bool" where
  "config_missing c en =
     (falsy (rpc (yargs c en)) \<or> falsy (contract (yargs c en)) \<or>
      falsy (env_FUNDER_PRIVATE_KEY en))"

text \<open>Neither constructor of lines 79 and 80 throws.\<close>

definition constructed :: "cli \<Rightarrow> env \<Rightarrow> world \<Rightarrow> bool" where
  "constructed c en w =
     (new_JsonRpcProvider w (RPC_URL (yargs c en)) = None \<and>
      new_Wallet w (or_default (env_FUNDER_PRIVATE_KEY en) []) = None)"

text \<open>Readings of a trace.\<close>

fun summaries :: "event list \<Rightarrow> RunSummary list" where
  "summaries [] = []"
| "summaries (WriteResults sm # evs) = sm # summaries evs"
| "summaries (ev # evs) = summaries evs"

fun is_Sleep :: "event \<Rightarrow> bool" where
  "is_Sleep (Sleep d) = True"
| "is_Sleep ev = False"

fun is_ConsoleWarn :: "event \<Rightarrow> bool" where
  "is_ConsoleWarn (ConsoleWarn l t) = True"
| "is_ConsoleWarn ev = False"

fun is_submission :: "event \<Rightarrow> bool" where
  "is_submission (FunderSend t v) = True"
| "is_submission (WalletSend f t d g) = True"
| "is_submission ev = False"

fun is_WriteWallets :: "event \<Rightarrow> bool" where
  "is_WriteWallets (WriteWallets ws) = True"
| "is_WriteWallets ev = False"

section \<open>Invariants of the loop\<close>

text \<open>
  The events an iteration can cause: the two delays are the settle delay of one second
  and the rate delay; the summary is never written inside the loop.
\<close>

fun loop_event_ok :: "argv \<Rightarrow> event \<Rightarrow> bool" where
  "loop_event_ok a (Sleep d) = (d = Num 1000 \<or> d = js_times (RATE_SECONDS a) (Num 1000))"
| "loop_event_ok a (WriteResults sm) = False"
| "loop_event_ok a ev = True"

text \<open>
  An entry of \<open>results\<close> is one of the four object literals, and which one is decided
  by what \<open>createWallet\<close> returned at the entry's index.
\<close>

definition result_wf :: "argv \<Rightarrow> env \<Rightarrow> world \<Rightarrow> IterationResult \<Rightarrow> bool" where
  "result_wf a en w r =
     (case createWallet a en w (index r) of
        Inl err \<Rightarrow> r = result_create (index r) err
      | Inr wl \<Rightarrow>
          (\<exists>err. r = result_fund (index r) wl err) \<or>
          (\<exists>err. r = result_store (index r) wl err) \<or>
          (\<exists>sendRes. r = result_ok (index r) wl sendRes))"

text \<open>
  The write of wallets.json in iteration \<open>j\<close> is reached and throws: wallets are saved,
  the loop gets to \<open>j\<close>, a wallet is created there, and the write fails.
\<close>

definition ledger_write_throws :: "argv \<Rightarrow> env \<Rightarrow> world \<Rightarrow> nat \<Rightarrow> bool" where
  "ledger_write_throws a en w j =
     (SAVE_WALLETS a \<and> int j < NUM a \<and> \<not> isl (createWallet a en w j) \<and>
      writeFileSync_wallets w j \<noteq> None)"

section \<open>Concrete inputs\<close>

text \<open>
  Some inputs on which the statements below are evaluated: a command line without
  flags, an environment with the three required values, and a world in which the node
  and the disk accept every call. In that world the funder wallet is constructed from a
  key of hexadecimal digits only, and \<open>ethers.BigInt\<close> is what it is in version 6 of
  ethers, the version whose names the script uses (\<open>ethers.JsonRpcProvider\<close>,
  \<open>ethers.parseEther\<close>, \<open>ethers.Interface\<close>): not a member of the namespace, so that
  calling it throws.
\<close>

definition hex_key :: "string \<Rightarrow> bool" where
  "hex_key k =
     (case k of
        c0 # cx # ds \<Rightarrow> c0 = CHR ''0'' \<and> cx = CHR ''x'' \<and> ds \<noteq> [] \<and>
                        list_all (\<lambda>d. d \<in> set ''0123456789abcdefABCDEF'') ds
      | short \<Rightarrow> False)"

definition w_ok :: world where
  "w_ok =
     \<lparr> new_JsonRpcProvider = (\<lambda>url. None),
       new_Wallet =
         (\<lambda>key. if hex_key key then None else Some (JsError ''TypeError'' ''invalid private key'')),
       ethers_BigInt = (\<lambda>n. Inl (JsError ''TypeError'' ''ethers.BigInt is not a function'')),
       createRandom = (\<lambda>i. Inr \<lparr> address = ''0xA'' @ digits i, privateKey = ''key'' @ digits i \<rparr>),
       fromMnemonic_derivePath = (\<lambda>m p. Inr \<lparr> address = ''0xD'' @ p, privateKey = m @ p \<rparr>),
       writeFileSync_wallets = (\<lambda>i. None),
       writeFileSync_results = None,
       parseEther = (\<lambda>s. 2),
       funder_sendTransaction = (\<lambda>i k. Inr (''0xF'' @ digits i)),
       funder_wait = (\<lambda>i k. Inr (''0xF'' @ digits i)),
       getBalance = (\<lambda>i. Inr 2),
       encodeFunctionData = (\<lambda>m. ''0x'' @ m),
       estimateGas = (\<lambda>i k. Inr 50000),
       wallet_sendTransaction = (\<lambda>i k g. Inr (''0xB'' @ digits i)),
       wallet_wait = (\<lambda>i k. Inr (''0xB'' @ digits i)),
       toISOString = ''2025-01-01T00:00:00.000Z'' \<rparr>"

definition cli_none :: cli where
  "cli_none =
     \<lparr> cli_num = None, cli_rate = None, cli_amount = None, cli_useHd = None,
       cli_saveWallets = None, cli_rpc = None, cli_contract = None, cli_message = None \<rparr>"

definition env_ok :: env where
  "env_ok =
     \<lparr> env_RPC_URL = Some ''https://mainnet.base.org'', env_CONTRACT_ADDRESS = Some ''0xDD'',
       env_FUNDER_PRIVATE_KEY = Some ''0x01'', env_MNEMONIC = None \<rparr>"

definition cli_three :: cli where
  "cli_three = cli_none\<lparr> cli_num := Some 3 \<rparr>"

definition w_mixed :: world where
  "w_mixed =
     w_ok\<lparr> createRandom :=
              (\<lambda>i. if i = 0 then Inl (JsError ''Error'' ''no entropy'') else createRandom w_ok i),
            funder_sendTransaction :=
              (\<lambda>i k. if i = 1 then Inl (JsError ''Error'' ''insufficient funds'')
                     else funder_sendTransaction w_ok i k) \<rparr>"

definition fund_failure_entry :: IterationResult where
  "fund_failure_entry =
     \<lparr> index = 1, r_address = Some ''0xA1'', txHash = None, status = ''fail'',
       step = Some ''fund'', error = Some ''Error: insufficient funds'' \<rparr>"

definition cli_one :: cli where
  "cli_one = cli_none\<lparr> cli_num := Some 1 \<rparr>"

definition w_disk_full :: world where
  "w_disk_full =
     w_ok\<lparr> writeFileSync_wallets := (\<lambda>i. Some (JsError ''Error'' ''ENOSPC: no space left on device'')) \<rparr>"

definition cli_hd :: cli where
  "cli_hd = cli_none\<lparr> cli_num := Some 2, cli_useHd := Some True \<rparr>"

definition env_no_rpc :: env where
  "env_no_rpc = env_ok\<lparr> env_RPC_URL := None \<rparr>"

definition mnemonic_error :: js_error where
  "mnemonic_error = JsError ''Error'' ''MNEMONIC required when --useHd is set.''"

fun is_WalletSend :: "event \<Rightarrow> bool" where
  "is_WalletSend (WalletSend f t d g) = True"
| "is_WalletSend ev = False"

definition w_store_rejected :: world where
  "w_store_rejected =
     w_ok\<lparr> wallet_sendTransaction := (\<lambda>i k g. Inl (JsError ''Error'' ''execution reverted'')) \<rparr>"

definition w_fund_rejected :: world where
  "w_fund_rejected =
     w_ok\<lparr> funder_sendTransaction := (\<lambda>i k. Inl (JsError ''Error'' ''insufficient funds'')) \<rparr>"

definition wallet_0 :: wallet where
  "wallet_0 = \<lparr> address = ''0xA0'', privateKey = ''key0'' \<rparr>"

definition init :: state where
  "init = \<lparr> results = [], savedWallets = [], trace = [] \<rparr>"

definition w_no_estimate :: world where
  "w_no_estimate =
     w_ok\<lparr> estimateGas := (\<lambda>i k. Inl (JsError ''Error'' ''cannot estimate gas'')) \<rparr>"

definition cli_rate_nan :: cli where
  "cli_rate_nan = cli_none\<lparr> cli_num := Some 1, cli_rate := Some NaN \<rparr>"

definition env_bad_key :: env where
  "env_bad_key = env_ok\<lparr> env_FUNDER_PRIVATE_KEY := Some ''not-a-key'' \<rparr>"

section \<open>Lemmas about the steps\<close>

lemma pRetry_events:
  "ev \<in> set (snd (pRetry n input hook k)) \<Longrightarrow>
     (\<exists>j. ev \<in> set (snd (input j))) \<or> (\<exists>e. ev \<in> set (hook e))"
proof (induction n arbitrary: k)
  case 0
  obtain r evs where inp: "input k = (r, evs)"
    by (cases "input k")
  have here: "ev \<in> set evs \<Longrightarrow> \<exists>j. ev \<in> set (snd (input j))"
    using inp by (intro exI [of _ k]) simp
  from 0 inp have "ev \<in> set evs \<or> (\<exists>e. ev \<in> set (hook e))"
    by (cases r) auto
  with here show ?case by blast
next
  case (Suc n)
  obtain r evs where inp: "input k = (r, evs)"
    by (cases "input k")
  obtain r' evs' where rec: "pRetry n input hook (Suc k) = (r', evs')"
    by (cases "pRetry n input hook (Suc k)")
  have here: "ev \<in> set evs \<Longrightarrow> \<exists>j. ev \<in> set (snd (input j))"
    using inp by (intro exI [of _ k]) simp
  have later: "ev \<in> set evs' \<Longrightarrow> ev \<in> set (snd (pRetry n input hook (Suc k)))"
    using rec by simp
  from Suc.prems inp rec
  have "ev \<in> set evs \<or> (\<exists>e. ev \<in> set (hook e)) \<or> ev \<in> set evs'"
    by (cases r) auto
  with here later Suc.IH [of "Suc k"] show ?case by blast
qed

lemma fundWallet_events: "ev \<in> set (snd (fundWallet a w i addr k)) \<Longrightarrow> loop_event_ok a ev"
  by (auto simp: fundWallet_def Let_def split: sum.splits)

lemma store_attempt_events:
  "ev \<in> set (snd (store_attempt a w i wl msg k)) \<Longrightarrow> loop_event_ok a ev"
  by (auto simp: store_attempt_def Let_def split: sum.splits)

lemma fund_with_retry_events:
  assumes "ev \<in> set (snd (fund_with_retry a w i addr))"
  shows "loop_event_ok a ev"
proof -
  from assms pRetry_events [of ev 2 "fundWallet a w i addr" fund_onFailedAttempt 1]
  have "(\<exists>j. ev \<in> set (snd (fundWallet a w i addr j))) \<or>
        (\<exists>e. ev \<in> set (fund_onFailedAttempt e))"
    by (simp add: fund_with_retry_def)
  then show ?thesis
    by (auto simp: fund_onFailedAttempt_def dest: fundWallet_events)
qed

lemma sendStoreMessageTx_events:
  assumes "ev \<in> set (snd (sendStoreMessageTx a w i wl msg))"
  shows "loop_event_ok a ev"
proof (cases "getBalance w i")
  case (Inl e)
  with assms show ?thesis by (auto simp: sendStoreMessageTx_def)
next
  case (Inr b)
  obtain r evs where rec: "pRetry 2 (store_attempt a w i wl msg) store_onFailedAttempt 1 = (r, evs)"
    by (cases "pRetry 2 (store_attempt a w i wl msg) store_onFailedAttempt 1")
  from assms Inr rec have "ev = GetBalance (address wl) \<or> ev \<in> set evs"
    by (auto simp: sendStoreMessageTx_def)
  moreover have "ev \<in> set evs \<Longrightarrow> loop_event_ok a ev"
  proof -
    assume "ev \<in> set evs"
    then have "ev \<in> set (snd (pRetry 2 (store_attempt a w i wl msg) store_onFailedAttempt 1))"
      using rec by simp
    from pRetry_events [OF this] show ?thesis
      by (auto simp: store_onFailedAttempt_def dest: store_attempt_events)
  qed
  ultimately show ?thesis by auto
qed

lemma index_result [simp]:
  "index (result_create i e) = i" "index (result_fund i wl e) = i"
  "index (result_store i wl e) = i" "index (result_ok i wl sr) = i"
  by (simp_all add: result_create_def result_fund_def result_store_def result_ok_def)

lemma push_simps [simp]:
  "results (push r s) = results s @ [r]" "trace (push r s) = trace s"
  "savedWallets (push r s) = savedWallets s"
  by (simp_all add: push_def)

lemma emit_simps [simp]:
  "results (emit evs s) = results s" "trace (emit evs s) = trace s @ evs"
  "savedWallets (emit evs s) = savedWallets s"
  by (simp_all add: emit_def)

lemma save_wallet_spec:
  assumes "save_wallet a w i wl s = (x, s1)"
  shows "results s1 = results s"
    and "\<exists>evs. trace s1 = trace s @ evs \<and> (\<forall>ev\<in>set evs. loop_event_ok a ev)"
    and "x \<noteq> None \<longleftrightarrow> SAVE_WALLETS a \<and> writeFileSync_wallets w i \<noteq> None"
  using assms
  by (auto simp: save_wallet_def Let_def split: if_splits option.splits)

lemma store_step_spec:
  "\<exists>r evs. results (store_step a w i wl s) = results s @ [r] \<and>
      ((\<exists>err. r = result_store i wl err) \<or> (\<exists>sendRes. r = result_ok i wl sendRes)) \<and>
      trace (store_step a w i wl s) = trace s @ evs \<and> (\<forall>ev\<in>set evs. loop_event_ok a ev)"
proof -
  let ?msg = "message_of a i"
  obtain r evs where sent: "sendStoreMessageTx a w i wl ?msg = (r, evs)"
    by (cases "sendStoreMessageTx a w i wl ?msg")
  have ok: "\<forall>ev\<in>set evs. loop_event_ok a ev"
    using sendStoreMessageTx_events [of _ a w i wl ?msg] sent by simp
  show ?thesis
  proof (cases r)
    case (Inl err)
    with sent ok show ?thesis
      by (simp add: store_step_def Let_def) blast
  next
    case (Inr sendRes)
    with sent ok show ?thesis
      by (simp add: store_step_def Let_def) blast
  qed
qed

lemma iteration_spec:
  assumes "iteration a en w i s = (x, s')"
  shows "\<exists>rs evs. results s' = results s @ rs \<and> trace s' = trace s @ evs \<and>
           (\<forall>ev\<in>set evs. loop_event_ok a ev) \<and>
           (\<forall>r\<in>set rs. index r = i \<and> result_wf a en w r) \<and>
           (x = None \<longrightarrow> length rs = 1)"
proof (cases "createWallet a en w i")
  case (Inl err)
  with assms have "x = None" and "results s' = results s @ [result_create i err]"
    and "trace s' = trace s @ [ConsoleError ''Failed to create wallet:'' (message_or_err err)]"
    by (auto simp: iteration_def)
  moreover have "result_wf a en w (result_create i err)"
    using Inl by (simp add: result_wf_def)
  ultimately show ?thesis by simp
next
  case (Inr wl)
  obtain y s1 where saved: "save_wallet a w i wl s = (y, s1)"
    by (cases "save_wallet a w i wl s")
  note sw = save_wallet_spec [OF saved]
  from sw(2) obtain evs1 where evs1: "trace s1 = trace s @ evs1" "\<forall>ev\<in>set evs1. loop_event_ok a ev"
    by blast
  show ?thesis
  proof (cases y)
    case (Some e)
    with assms Inr saved have "x = Some e" "s' = s1"
      by (auto simp: iteration_def)
    with sw(1) evs1 Some show ?thesis by simp
  next
    case None
    obtain fr evs2 where funded: "fund_with_retry a w i (address wl) = (fr, evs2)"
      by (cases "fund_with_retry a w i (address wl)")
    have evs2: "\<forall>ev\<in>set evs2. loop_event_ok a ev"
      using fund_with_retry_events [of _ a w i "address wl"] funded by simp
    show ?thesis
    proof (cases fr)
      case (Inl err)
      with assms Inr saved None funded
      have "x = None" and "results s' = results s1 @ [result_fund i wl err]"
        and "trace s' = trace s1 @ evs2 @
               [ConsoleError (''Funding failed for '' @ address wl @ '':'') (message_or_err err)]"
        by (auto simp: iteration_def)
      moreover have "result_wf a en w (result_fund i wl err)"
        using \<open>createWallet a en w i = Inr wl\<close> by (auto simp: result_wf_def)
      ultimately show ?thesis using sw(1) evs1 evs2 by auto
    next
      case (Inr fundRes)
      with assms \<open>createWallet a en w i = Inr wl\<close> saved None funded
      have x: "x = None" and s': "s' = store_step a w i wl (emit evs2 s1)"
        by (auto simp: iteration_def)
      from store_step_spec [of a w i wl "emit evs2 s1"]
      obtain r evs3 where r: "results s' = results s1 @ [r]"
        and kind: "(\<exists>err. r = result_store i wl err) \<or> (\<exists>sendRes. r = result_ok i wl sendRes)"
        and tr: "trace s' = trace s1 @ evs2 @ evs3" and evs3: "\<forall>ev\<in>set evs3. loop_event_ok a ev"
        unfolding s' by auto
      from kind have "index r = i" by auto
      moreover from kind have "result_wf a en w r"
        using \<open>createWallet a en w i = Inr wl\<close> by (auto simp: result_wf_def)
      ultimately show ?thesis using x r tr sw(1) evs1 evs2 evs3 by auto
    qed
  qed
qed

lemma iteration_throws:
  "fst (iteration a en w i s) \<noteq> None \<longleftrightarrow>
     SAVE_WALLETS a \<and> \<not> isl (createWallet a en w i) \<and> writeFileSync_wallets w i \<noteq> None"
proof (cases "createWallet a en w i")
  case (Inl err)
  then show ?thesis by (simp add: iteration_def)
next
  case (Inr wl)
  obtain y s1 where saved: "save_wallet a w i wl s = (y, s1)"
    by (cases "save_wallet a w i wl s")
  have "fst (iteration a en w i s) = y"
    using Inr saved
    by (cases y; cases "fund_with_retry a w i (address wl)"; cases "fst (fund_with_retry a w i (address wl))")
      (auto simp: iteration_def)
  with save_wallet_spec(3) [OF saved] Inr show ?thesis by simp
qed

lemma loop_spec:
  "loop a en w i s = (x, s') \<Longrightarrow>
     \<exists>rs evs. results s' = results s @ rs \<and> trace s' = trace s @ evs \<and>
        (\<forall>ev\<in>set evs. loop_event_ok a ev) \<and>
        (\<forall>r\<in>set rs. result_wf a en w r) \<and>
        (x = None \<longrightarrow> map index rs = [i..<nat (NUM a)])"
proof (induction a en w i s arbitrary: x s' rule: loop.induct)
  case (1 a en w i s)
  show ?case
  proof (cases "int i < NUM a")
    case False
    with "1.prems" have "x = None" "s' = s"
      by (simp_all add: loop.simps [of a en w i s])
    moreover from False have "nat (NUM a) \<le> i" by linarith
    ultimately show ?thesis by auto
  next
    case True
    obtain y s1 where it: "iteration a en w i s = (y, s1)"
      by (cases "iteration a en w i s")
    from iteration_spec [OF it] obtain rs1 evs1 where
      one: "results s1 = results s @ rs1" "trace s1 = trace s @ evs1"
        "\<forall>ev\<in>set evs1. loop_event_ok a ev" "\<forall>r\<in>set rs1. index r = i \<and> result_wf a en w r"
        "y = None \<longrightarrow> length rs1 = 1"
      by (elim exE conjE)
    show ?thesis
    proof (cases y)
      case (Some e)
      with "1.prems" True it have "x = Some e" "s' = s1"
        by (simp_all add: loop.simps [of a en w i s])
      with one Some show ?thesis
        by (intro exI [of _ rs1] exI [of _ evs1]) auto
    next
      case None
      with "1.prems" True it have rest: "loop a en w (Suc i) s1 = (x, s')"
        by (simp add: loop.simps [of a en w i s])
      from "1.IH" [OF True it [symmetric] None rest]
      obtain rs2 evs2 where
        two: "results s' = results s1 @ rs2" "trace s' = trace s1 @ evs2"
          "\<forall>ev\<in>set evs2. loop_event_ok a ev" "\<forall>r\<in>set rs2. result_wf a en w r"
          "x = None \<longrightarrow> map index rs2 = [Suc i..<nat (NUM a)]"
        by (elim exE conjE)
      from one(4) one(5) None have "map index rs1 = [i]"
        by (cases rs1) auto
      moreover from True have "[i..<nat (NUM a)] = i # [Suc i..<nat (NUM a)]"
        by (simp add: upt_conv_Cons)
      ultimately have idx: "x = None \<longrightarrow> map index (rs1 @ rs2) = [i..<nat (NUM a)]"
        using two(5) by simp
      show ?thesis
      proof (intro exI [of _ "rs1 @ rs2"] exI [of _ "evs1 @ evs2"] conjI)
        show "results s' = results s @ rs1 @ rs2" using one(1) two(1) by simp
        show "trace s' = trace s @ evs1 @ evs2" using one(2) two(2) by simp
        show "\<forall>ev\<in>set (evs1 @ evs2). loop_event_ok a ev" using one(3) two(3) by auto
        show "\<forall>r\<in>set (rs1 @ rs2). result_wf a en w r" using one(4) two(4) by auto
        show "x = None \<longrightarrow> map index (rs1 @ rs2) = [i..<nat (NUM a)]" by (rule idx)
      qed
    qed
  qed
qed

lemma loop_throws:
  "fst (loop a en w i s) \<noteq> None \<longleftrightarrow> (\<exists>j\<ge>i. ledger_write_throws a en w j)"
proof (induction a en w i s rule: loop.induct)
  case (1 a en w i s)
  show ?case
  proof (cases "int i < NUM a")
    case False
    then have "\<not> ledger_write_throws a en w j" if "i \<le> j" for j
      using that by (simp add: ledger_write_throws_def)
    with False show ?thesis
      by (auto simp: loop.simps [of a en w i s])
  next
    case True
    obtain y s1 where it: "iteration a en w i s = (y, s1)"
      by (cases "iteration a en w i s")
    from iteration_throws [of a en w i s] it True
    have here: "y \<noteq> None \<longleftrightarrow> ledger_write_throws a en w i"
      by (simp add: ledger_write_throws_def)
    show ?thesis
    proof (cases y)
      case (Some e)
      with True it have "fst (loop a en w i s) \<noteq> None"
        by (simp add: loop.simps [of a en w i s])
      moreover from here Some have "\<exists>j\<ge>i. ledger_write_throws a en w j"
        by auto
      ultimately show ?thesis by simp
    next
      case None
      with True it have "fst (loop a en w i s) = fst (loop a en w (Suc i) s1)"
        by (simp add: loop.simps [of a en w i s])
      moreover from "1.IH" [OF True it [symmetric] None]
      have "fst (loop a en w (Suc i) s1) \<noteq> None \<longleftrightarrow> (\<exists>j\<ge>Suc i. ledger_write_throws a en w j)" .
      moreover from here None have "\<not> ledger_write_throws a en w i" by simp
      then have "(\<exists>j\<ge>Suc i. ledger_write_throws a en w j) \<longleftrightarrow>
                 (\<exists>j\<ge>i. ledger_write_throws a en w j)"
        by (metis Suc_leD Suc_leI le_neq_implies_less)
      ultimately show ?thesis by simp
    qed
  qed
qed

section \<open>Lemmas about a whole run\<close>

lemma summaries_append: "summaries (xs @ ys) = summaries xs @ summaries ys"
  by (induction xs rule: summaries.induct) simp_all

lemma summaries_loop_events: "\<forall>ev\<in>set evs. loop_event_ok a ev \<Longrightarrow> summaries evs = []"
  by (induction evs rule: summaries.induct) simp_all

lemma main_cases:
  obtains (completed) s1 where "loop a en w 0 \<lparr> results = [], savedWallets = [], trace = [] \<rparr> = (None, s1)"
      and "writeFileSync_results w = None"
      and "main a en w = (None, emit [WriteResults (summary a w s1)] s1)"
    | (failed) e s1 where "main a en w = (Some e, s1)"
      and "fst (loop a en w 0 \<lparr> results = [], savedWallets = [], trace = [] \<rparr>) = None
             \<Longrightarrow> writeFileSync_results w \<noteq> None"
      and "snd (loop a en w 0 \<lparr> results = [], savedWallets = [], trace = [] \<rparr>) = s1"
proof -
  obtain x s1 where l: "loop a en w 0 \<lparr> results = [], savedWallets = [], trace = [] \<rparr> = (x, s1)"
    by (cases "loop a en w 0 \<lparr> results = [], savedWallets = [], trace = [] \<rparr>")
  show thesis
  proof (cases x)
    case (Some e)
    with l have "main a en w = (Some e, s1)" by (simp add: main_def)
    with l Some show thesis by (intro failed [of e s1]) simp_all
  next
    case None
    show thesis
    proof (cases "writeFileSync_results w")
      case (Some e)
      with l None have "main a en w = (Some e, s1)" by (simp add: main_def)
      with l Some show thesis by (intro failed [of e s1]) simp_all
    next
      case wr: None
      with l None have "main a en w = (None, emit [WriteResults (summary a w s1)] s1)"
        by (simp add: main_def)
      with l None wr show thesis by (intro completed [of s1]) simp_all
    qed
  qed
qed

lemma loop_from_start:
  assumes "loop a en w 0 \<lparr> results = [], savedWallets = [], trace = [] \<rparr> = (x, s1)"
  shows "summaries (trace s1) = []"
    and "\<forall>r\<in>set (results s1). result_wf a en w r"
    and "x = None \<Longrightarrow> map index (results s1) = [0..<nat (NUM a)]"
    and "x \<noteq> None \<longleftrightarrow> (\<exists>j. ledger_write_throws a en w j)"
proof -
  from loop_spec [OF assms] obtain rs evs where
    spec: "results s1 = rs" "trace s1 = evs" "\<forall>ev\<in>set evs. loop_event_ok a ev"
      "\<forall>r\<in>set rs. result_wf a en w r" "x = None \<longrightarrow> map index rs = [0..<nat (NUM a)]"
    by (elim exE conjE) simp
  from spec(2) spec(3) show "summaries (trace s1) = []"
    by (simp add: summaries_loop_events)
  from spec(1) spec(4) show "\<forall>r\<in>set (results s1). result_wf a en w r" by simp
  from spec(1) spec(5) show "x = None \<Longrightarrow> map index (results s1) = [0..<nat (NUM a)]" by simp
  from loop_throws [of a en w 0 "\<lparr> results = [], savedWallets = [], trace = [] \<rparr>"] assms
  show "x \<noteq> None \<longleftrightarrow> (\<exists>j. ledger_write_throws a en w j)" by simp
qed

lemma main_summaries:
  "summaries (trace (snd (main a en w))) = [] \<or>
   (\<exists>s1. loop a en w 0 \<lparr> results = [], savedWallets = [], trace = [] \<rparr> = (None, s1) \<and>
      fst (main a en w) = None \<and>
      summaries (trace (snd (main a en w))) = [summary a w s1])"
proof (cases rule: main_cases [of a en w])
  case (completed s1)
  from loop_from_start(1) [OF completed(1)] completed show ?thesis
    by (simp add: summaries_append)
next
  case (failed e s1)
  obtain x where "loop a en w 0 \<lparr> results = [], savedWallets = [], trace = [] \<rparr> = (x, s1)"
    using failed(3) by (cases "loop a en w 0 \<lparr> results = [], savedWallets = [], trace = [] \<rparr>") simp
  from loop_from_start(1) [OF this] failed(1) show ?thesis by simp
qed

lemma main_completes:
  assumes "\<forall>j. \<not> ledger_write_throws a en w j" and "writeFileSync_results w = None"
  shows "\<exists>s1. loop a en w 0 \<lparr> results = [], savedWallets = [], trace = [] \<rparr> = (None, s1) \<and>
           main a en w = (None, emit [WriteResults (summary a w s1)] s1)"
proof (cases rule: main_cases [of a en w])
  case (completed s1)
  then show ?thesis by simp
next
  case (failed e s1)
  obtain x where l: "loop a en w 0 \<lparr> results = [], savedWallets = [], trace = [] \<rparr> = (x, s1)"
    using failed(3) by (cases "loop a en w 0 \<lparr> results = [], savedWallets = [], trace = [] \<rparr>") simp
  from loop_from_start(4) [OF l] assms(1) have "x = None" by simp
  with l failed(2) assms(2) show ?thesis by simp
qed

lemma main_throws:
  "fst (main a en w) \<noteq> None \<longleftrightarrow>
     (\<exists>j. ledger_write_throws a en w j) \<or> writeFileSync_results w \<noteq> None"
proof (cases "(\<exists>j. ledger_write_throws a en w j) \<or> writeFileSync_results w \<noteq> None")
  case False
  then have "\<forall>j. \<not> ledger_write_throws a en w j" "writeFileSync_results w = None"
    by simp_all
  from main_completes [OF this] False show ?thesis by auto
next
  case True
  obtain x s1 where l: "loop a en w 0 \<lparr> results = [], savedWallets = [], trace = [] \<rparr> = (x, s1)"
    by (cases "loop a en w 0 \<lparr> results = [], savedWallets = [], trace = [] \<rparr>")
  show ?thesis
  proof (cases x)
    case (Some e)
    with l True show ?thesis by (simp add: main_def)
  next
    case None
    with loop_from_start(4) [OF l] True have "writeFileSync_results w \<noteq> None" by simp
    with l None True show ?thesis by (auto simp: main_def)
  qed
qed

lemma result_wf_fields:
  assumes "result_wf a en w r"
  shows "(status r = ''ok'' \<longleftrightarrow> txHash r \<noteq> None \<and> step r = None \<and> error r = None) \<and>
         (status r = ''fail'' \<longleftrightarrow>
            step r \<in> {Some ''create'', Some ''fund'', Some ''store''} \<and> error r \<noteq> None) \<and>
         (r_address r \<noteq> None \<longleftrightarrow> step r \<noteq> Some ''create'') \<and>
         (r_address r \<noteq> None \<longleftrightarrow> (\<exists>wl. createWallet a en w (index r) = Inr wl))"
proof (cases "createWallet a en w (index r)")
  case (Inl err)
  with assms have "r = result_create (index r) err"
    by (simp add: result_wf_def)
  then have "r_address r = None" "txHash r = None" "status r = ''fail''"
    "step r = Some ''create''" "error r \<noteq> None"
    by (metis result_create_def IterationResult.select_convs option.distinct(1))+
  with Inl show ?thesis by simp
next
  case (Inr wl)
  with assms consider
      (fund) err where "r = result_fund (index r) wl err"
    | (store) err where "r = result_store (index r) wl err"
    | (ok) sendRes where "r = result_ok (index r) wl sendRes"
    by (auto simp: result_wf_def)
  then show ?thesis
  proof cases
    case fund
    then have "r_address r \<noteq> None" "txHash r = None" "status r = ''fail''"
      "step r = Some ''fund''" "error r \<noteq> None"
      by (metis result_fund_def IterationResult.select_convs option.distinct(1))+
    with Inr show ?thesis by simp
  next
    case store
    then have "r_address r \<noteq> None" "txHash r = None" "status r = ''fail''"
      "step r = Some ''store''" "error r \<noteq> None"
      by (metis result_store_def IterationResult.select_convs option.distinct(1))+
    with Inr show ?thesis by simp
  next
    case ok
    then have "r_address r \<noteq> None" "txHash r \<noteq> None" "status r = ''ok''"
      "step r = None" "error r = None"
      by (metis result_ok_def IterationResult.select_convs option.distinct(1))+
    with Inr show ?thesis by simp
  qed
qed

lemma main_results_wf: "\<forall>r\<in>set (results (snd (main a en w))). result_wf a en w r"
proof (cases rule: main_cases [of a en w])
  case (completed s1)
  from loop_from_start(2) [OF completed(1)] completed(3) show ?thesis by simp
next
  case (failed e s1)
  obtain x where "loop a en w 0 \<lparr> results = [], savedWallets = [], trace = [] \<rparr> = (x, s1)"
    using failed(3) by (cases "loop a en w 0 \<lparr> results = [], savedWallets = [], trace = [] \<rparr>") simp
  from loop_from_start(2) [OF this] failed(1) show ?thesis by simp
qed

text \<open>Unfolding the model on a concrete input.\<close>

lemmas model_defs =
  program_def main_def iteration_def createWallet_def save_wallet_def fund_with_retry_def
  fundWallet_def store_step_def sendStoreMessageTx_def store_attempt_def summary_def
  fund_onFailedAttempt_def store_onFailedAttempt_def message_or_err_def String_of_def
  config_missing_def constructed_def
  result_create_def result_fund_def result_store_def result_ok_def push_def emit_def
  yargs_def or_default_def or_env_def falsy_def RPC_URL_def CONTRACT_ADDRESS_def
  FUND_AMOUNT_def NUM_def RATE_SECONDS_def USE_HD_def SAVE_WALLETS_def MESSAGE_BASE_def
  MNEMONIC_def message_of_def Let_def numeral_2_eq_2

lemmas input_defs =
  w_ok_def w_mixed_def w_disk_full_def w_store_rejected_def w_fund_rejected_def
  w_no_estimate_def cli_none_def cli_one_def cli_three_def cli_hd_def cli_rate_nan_def
  env_ok_def env_no_rpc_def env_bad_key_def wallet_0_def init_def hex_key_def

lemma digits_small [simp]:
  "digits 0 = ''0''" "digits (Suc 0) = ''1''" "digits (Suc (Suc 0)) = ''2''"
  by code_simp+

lemma program_configured:
  assumes "\<not> config_missing c en" and "constructed c en w"
  shows "program c en w =
           (case main (yargs c en) en w of
              (None, s) \<Rightarrow> (0, trace s)
            | (Some err, s) \<Rightarrow> (1, trace s @ [ConsoleError ''Fatal error:'' (String_of err)]))"
  using assms by (simp add: program_def config_missing_def constructed_def Let_def)

lemma program_unconfigured:
  assumes "config_missing c en"
  shows "fst (program c en w) = 1" and "\<exists>msg. snd (program c en w) = [ConsoleError msg []]"
  using assms by (auto simp: program_def config_missing_def Let_def)

lemma program_unconstructed:
  assumes "\<not> config_missing c en" and "\<not> constructed c en w"
  shows "fst (program c en w) = 1" and "\<exists>err. snd (program c en w) = [Uncaught err]"
  using assms
  by (auto simp: program_def config_missing_def constructed_def Let_def split: option.splits)

lemma program_status_of_main:
  assumes "\<not> config_missing c en" and "constructed c en w"
  shows "fst (program c en w) = (if fst (main (yargs c en) en w) = None then 0 else 1)"
  by (cases "main (yargs c en) en w"; cases "fst (main (yargs c en) en w)")
    (simp_all add: program_configured [OF assms])

lemma program_completes:
  assumes "\<not> config_missing c en" and "constructed c en w"
    and "\<forall>j. \<not> ledger_write_throws (yargs c en) en w j" and "writeFileSync_results w = None"
  shows "fst (program c en w) = 0"
    and "\<exists>sm. summaries (snd (program c en w)) = [sm] \<and>
           map index (s_results sm) = [0..<nat (NUM (yargs c en))]"
proof -
  let ?a = "yargs c en"
  from main_completes [OF assms(3,4)] obtain s1 where
    l: "loop ?a en w 0 \<lparr> results = [], savedWallets = [], trace = [] \<rparr> = (None, s1)"
    and m: "main ?a en w = (None, emit [WriteResults (summary ?a w s1)] s1)"
    by (elim exE conjE)
  from m have p: "program c en w = (0, trace s1 @ [WriteResults (summary ?a w s1)])"
    by (simp add: program_configured [OF assms(1,2)])
  then show "fst (program c en w) = 0" by simp
  from loop_from_start(1) [OF l] p
  have "summaries (snd (program c en w)) = [summary ?a w s1]"
    by (simp add: summaries_append)
  moreover from loop_from_start(3) [OF l]
  have "map index (s_results (summary ?a w s1)) = [0..<nat (NUM ?a)]"
    by (simp add: summary_def)
  ultimately show "\<exists>sm. summaries (snd (program c en w)) = [sm] \<and>
      map index (s_results sm) = [0..<nat (NUM (yargs c en))]"
    by simp
qed

lemma createWallet_no_mnemonic:
  assumes "USE_HD a" and "MNEMONIC en = None"
  shows "createWallet a en w i = Inl mnemonic_error"
  using assms by (simp add: createWallet_def mnemonic_error_def)

lemma loop_no_mnemonic:
  "USE_HD a \<Longrightarrow> MNEMONIC en = None \<Longrightarrow>
   loop a en w i s =
           (None, s\<lparr> results := results s @ map (\<lambda>j. result_create j mnemonic_error) [i..<nat (NUM a)],
                     trace := trace s @
                       replicate (nat (NUM a) - i)
                         (ConsoleError ''Failed to create wallet:''
                            ''MNEMONIC required when --useHd is set.'') \<rparr>)"
proof (induction a en w i s rule: loop.induct)
  case (1 a en w i s)
  let ?ev = "ConsoleError ''Failed to create wallet:'' ''MNEMONIC required when --useHd is set.''"
  show ?case
  proof (cases "int i < NUM a")
    case False
    then have "nat (NUM a) \<le> i" by linarith
    with False show ?thesis
      by (simp add: loop.simps [of a en w i s])
  next
    case True
    have msg: "message_or_err mnemonic_error = ''MNEMONIC required when --useHd is set.''"
      by (simp add: message_or_err_def mnemonic_error_def)
    have it: "iteration a en w i s = (None, push (result_create i mnemonic_error) (emit [?ev] s))"
      using createWallet_no_mnemonic [OF "1.prems", of w i]
      by (simp add: iteration_def msg)
    from True have range: "[i..<nat (NUM a)] = i # [Suc i..<nat (NUM a)]"
      by (simp add: upt_conv_Cons)
    from True have count: "nat (NUM a) - i = Suc (nat (NUM a) - Suc i)"
      by linarith
    from "1.IH" [OF True it [symmetric] refl "1.prems"]
    have "loop a en w (Suc i) (push (result_create i mnemonic_error) (emit [?ev] s)) =
            (None, s\<lparr> results := results s @ map (\<lambda>j. result_create j mnemonic_error) [i..<nat (NUM a)],
                      trace := trace s @ replicate (nat (NUM a) - i) ?ev \<rparr>)"
      by (simp add: range count push_def emit_def)
    with True it show ?thesis
      by (simp add: loop.simps [of a en w i s])
  qed
qed

lemma loop_continues:
  assumes "iteration a en w i s = (None, s')" and "int i < NUM a"
  shows "loop a en w i s = loop a en w (Suc i) s'"
  using assms by (simp add: loop.simps [of a en w i s])

lemma save_wallet_writes:
  assumes "SAVE_WALLETS a \<longrightarrow> writeFileSync_wallets w i = None"
  shows "\<exists>s1 evs. save_wallet a w i wl s = (None, s1) \<and> results s1 = results s \<and>
           trace s1 = trace s @ evs \<and> filter is_Sleep evs = [] \<and>
           filter is_WalletSend evs = []"
  using assms by (auto simp: save_wallet_def Let_def)

lemma fundWallet_event_kinds:
  "ev \<in> set (snd (fundWallet a w i addr k)) \<Longrightarrow>
     (\<exists>t v. ev = FunderSend t v) \<or> (\<exists>h. ev = Wait h)"
  by (auto simp: fundWallet_def Let_def split: sum.splits)

lemma fund_with_retry_event_kinds:
  assumes "ev \<in> set (snd (fund_with_retry a w i addr))"
  shows "(\<exists>t v. ev = FunderSend t v) \<or> (\<exists>h. ev = Wait h) \<or> (\<exists>l m. ev = ConsoleWarn l m)"
proof -
  from assms pRetry_events [of ev 2 "fundWallet a w i addr" fund_onFailedAttempt 1]
  have "(\<exists>j. ev \<in> set (snd (fundWallet a w i addr j))) \<or>
        (\<exists>e. ev \<in> set (fund_onFailedAttempt e))"
    by (simp add: fund_with_retry_def)
  then show ?thesis
  proof
    assume "\<exists>j. ev \<in> set (snd (fundWallet a w i addr j))"
    then obtain j where "ev \<in> set (snd (fundWallet a w i addr j))" ..
    from fundWallet_event_kinds [OF this] show ?thesis by blast
  next
    assume "\<exists>e. ev \<in> set (fund_onFailedAttempt e)"
    then show ?thesis by (auto simp: fund_onFailedAttempt_def)
  qed
qed

lemma fund_with_retry_no_sleep: "filter is_Sleep (snd (fund_with_retry a w i addr)) = []"
proof -
  have "\<not> is_Sleep ev" if "ev \<in> set (snd (fund_with_retry a w i addr))" for ev
    using fund_with_retry_event_kinds [OF that] by auto
  then show ?thesis by (simp add: filter_empty_conv)
qed

lemma fund_with_retry_no_payload:
  "filter is_WalletSend (snd (fund_with_retry a w i addr)) = []"
proof -
  have "\<not> is_WalletSend ev" if "ev \<in> set (snd (fund_with_retry a w i addr))" for ev
    using fund_with_retry_event_kinds [OF that] by auto
  then show ?thesis by (simp add: filter_empty_conv)
qed

lemma pRetry_2_all_fail:
  assumes "fst (input 1) = Inl e1" and "fst (input 2) = Inl e2" and "fst (input 3) = Inl e3"
  shows "pRetry 2 input hook 1 =
           (Inl e3, snd (input 1) @ hook e1 @ snd (input 2) @ hook e2 @ snd (input 3) @ hook e3)"
proof -
  obtain evs1 evs2 evs3 where
    "input 1 = (Inl e1, evs1)" "input 2 = (Inl e2, evs2)" "input 3 = (Inl e3, evs3)"
    using assms by (metis prod.collapse)
  then show ?thesis
    by (simp add: numeral_2_eq_2 numeral_3_eq_3)
qed

lemma pRetry_count:
  assumes "\<And>j. length (filter P (snd (input j))) \<le> 1" and "\<And>e. filter P (hook e) = []"
  shows "length (filter P (snd (pRetry n input hook k))) \<le> Suc n"
proof (induction n arbitrary: k)
  case 0
  obtain r evs where inp: "input k = (r, evs)"
    by (cases "input k")
  with assms(1) [of k] have "length (filter P evs) \<le> 1" by simp
  with inp assms(2) show ?case
    by (cases r) simp_all
next
  case (Suc n)
  obtain r evs where inp: "input k = (r, evs)"
    by (cases "input k")
  obtain r' evs' where rec: "pRetry n input hook (Suc k) = (r', evs')"
    by (cases "pRetry n input hook (Suc k)")
  from assms(1) [of k] inp have one: "length (filter P evs) \<le> 1" by simp
  from Suc.IH [of "Suc k"] rec have rest: "length (filter P evs') \<le> Suc n" by simp
  from inp rec one rest assms(2) show ?case
    by (cases r) simp_all
qed

lemma fundWallet_submits_once:
  "filter is_submission (snd (fundWallet a w i addr k)) =
     [FunderSend addr (parseEther w (FUND_AMOUNT a))]"
  by (simp add: fundWallet_def Let_def split: sum.splits)

lemma fundWallet_no_warning: "filter is_ConsoleWarn (snd (fundWallet a w i addr k)) = []"
  by (simp add: fundWallet_def Let_def split: sum.splits)

lemma store_attempt_catch_throws:
  assumes "estimateGas w i k = Inl e" and "ethers_BigInt w 300000 = Inl thrown"
  shows "store_attempt a w i wl msg k =
           (Inl thrown, [EstimateGas (CONTRACT_ADDRESS a) (address wl) (encodeFunctionData w msg)])"
  using assms by (simp add: store_attempt_def Let_def)

lemma RATE_SECONDS_finite:
  assumes "rate a = Num r"
  shows "RATE_SECONDS a = Num (max 1 r)"
    and "js_times (RATE_SECONDS a) (Num 1000) = Num (max 1 r * 1000)"
    and "1000 \<le> max 1 r * 1000"
  using assms by (simp_all add: RATE_SECONDS_def)

section \<open>The claims\<close>

text \<open>
  C1. For every N \<ge> 0 and every pattern of failures in the iterations, the results
  sequence of a run summary that the run writes has one entry per iteration, N in all,
  with the indices 0 to N - 1 in order. When no write to the disk throws, the summary is
  written, once.
\<close>

theorem results_one_per_iteration:
  assumes "0 \<le> NUM a"
  shows "(\<forall>sm\<in>set (summaries (trace (snd (main a en w)))).
            map index (s_results sm) = [0..<nat (NUM a)] \<and> int (length (s_results sm)) = NUM a) \<and>
         ((\<forall>j. \<not> ledger_write_throws a en w j) \<and> writeFileSync_results w = None \<longrightarrow>
            length (summaries (trace (snd (main a en w)))) = 1)"
proof (intro conjI ballI impI)
  fix sm
  assume sm: "sm \<in> set (summaries (trace (snd (main a en w))))"
  with main_summaries [of a en w] obtain s1 where
    l: "loop a en w 0 \<lparr> results = [], savedWallets = [], trace = [] \<rparr> = (None, s1)"
    and "sm = summary a w s1"
    by auto
  with loop_from_start(3) [OF l] have idx: "map index (s_results sm) = [0..<nat (NUM a)]"
    by (simp add: summary_def)
  then show "map index (s_results sm) = [0..<nat (NUM a)]" .
  from idx have "length (s_results sm) = nat (NUM a)"
    by (metis length_map length_upt diff_zero)
  with assms show "int (length (s_results sm)) = NUM a" by simp
next
  assume "(\<forall>j. \<not> ledger_write_throws a en w j) \<and> writeFileSync_results w = None"
  then have disk: "\<forall>j. \<not> ledger_write_throws a en w j" "writeFileSync_results w = None"
    by simp_all
  from main_completes [OF disk] obtain s1 where
    l: "loop a en w 0 \<lparr> results = [], savedWallets = [], trace = [] \<rparr> = (None, s1)"
    and m: "main a en w = (None, emit [WriteResults (summary a w s1)] s1)"
    by (elim exE conjE)
  from loop_from_start(1) [OF l] m
  show "length (summaries (trace (snd (main a en w)))) = 1"
    by (simp add: summaries_append)
qed

theorem results_one_per_iteration_witness:
  "0 \<le> NUM (yargs cli_three env_ok) \<and>
   (\<exists>sm. summaries (trace (snd (main (yargs cli_three env_ok) env_ok w_mixed))) = [sm] \<and>
      map index (s_results sm) = [0, 1, 2] \<and> length (s_results sm) = 3)"
proof -
  let ?a = "yargs cli_three env_ok"
  let ?S = "summaries (trace (snd (main ?a env_ok w_mixed)))"
  have n: "NUM ?a = 3"
    by (simp add: NUM_def yargs_def cli_three_def cli_none_def or_default_def)
  have disk: "(\<forall>j. \<not> ledger_write_throws ?a env_ok w_mixed j) \<and>
      writeFileSync_results w_mixed = None"
    by (simp add: ledger_write_throws_def w_mixed_def w_ok_def)
  from results_one_per_iteration [of ?a env_ok w_mixed] n disk
  have every: "\<forall>sm\<in>set ?S. map index (s_results sm) = [0..<3] \<and> int (length (s_results sm)) = 3"
    and once: "length ?S = 1"
    by simp_all
  from once obtain sm where sm: "?S = [sm]"
    by (cases ?S) simp_all
  have "[0..<3] = [0, 1, 2::nat]"
    by (simp add: upt_rec)
  with every sm n show ?thesis by simp
qed

text \<open>
  C2, at an input on which the code does not do what the claim says. The claim is that
  a failing gas estimation raises no error and that the submission goes on with the gas
  limit 300000. In the world \<open>w_no_estimate\<close> every gas estimation throws and
  \<open>ethers.BigInt\<close> is not a member of the namespace: the \<open>catch\<close> block of the attempt
  throws the \<open>TypeError\<close> of that call, the attempt fails with it, no transaction is sent
  from the new wallet, and \<open>main\<close> records the iteration as failed at the step store.
\<close>

theorem gas_estimation_failure_surfaces:
  "estimateGas w_no_estimate 0 1 = Inl (JsError ''Error'' ''cannot estimate gas'') \<and>
   store_attempt (yargs cli_one env_ok) w_no_estimate 0 wallet_0
       (message_of (yargs cli_one env_ok) 0) 1 =
     (Inl (JsError ''TypeError'' ''ethers.BigInt is not a function''),
      [EstimateGas ''0xDD'' ''0xA0'' ''0xHello from farm! (#0)'']) \<and>
   filter is_WalletSend (trace (snd (main (yargs cli_one env_ok) env_ok w_no_estimate))) = [] \<and>
   results (snd (main (yargs cli_one env_ok) env_ok w_no_estimate)) =
     [\<lparr> index = 0, r_address = Some ''0xA0'', txHash = None, status = ''fail'',
        step = Some ''store'', error = Some ''TypeError: ethers.BigInt is not a function'' \<rparr>]"
  by (simp add: model_defs input_defs loop.simps)

text \<open>
  C3, with the hook count the retry policy gives. The funding step makes at most three
  attempts. When all three fail, the observation hook has run after every failed
  attempt, the last one included, that is three times and not two, each time with the
  failure of that attempt; the failure of the third attempt is what the funding step
  throws, unchanged.
\<close>

theorem retry_policy_exhausted:
  "length (filter is_submission (snd (fund_with_retry a w i addr))) \<le> 3 \<and>
   (fst (fundWallet a w i addr 1) = Inl e1 \<and> fst (fundWallet a w i addr 2) = Inl e2 \<and>
    fst (fundWallet a w i addr 3) = Inl e3 \<longrightarrow>
      fst (fund_with_retry a w i addr) = Inl e3 \<and>
      length (filter is_submission (snd (fund_with_retry a w i addr))) = 3 \<and>
      filter is_ConsoleWarn (snd (fund_with_retry a w i addr)) =
        [ConsoleWarn ''fundWallet attempt failed:'' (message_or_err e1),
         ConsoleWarn ''fundWallet attempt failed:'' (message_or_err e2),
         ConsoleWarn ''fundWallet attempt failed:'' (message_or_err e3)])"
proof (intro conjI impI)
  have "length (filter is_submission (snd (pRetry 2 (fundWallet a w i addr) fund_onFailedAttempt 1)))
          \<le> Suc 2"
    by (rule pRetry_count) (simp_all add: fundWallet_submits_once fund_onFailedAttempt_def)
  then show "length (filter is_submission (snd (fund_with_retry a w i addr))) \<le> 3"
    by (simp add: fund_with_retry_def)
next
  assume all: "fst (fundWallet a w i addr 1) = Inl e1 \<and> fst (fundWallet a w i addr 2) = Inl e2 \<and>
    fst (fundWallet a w i addr 3) = Inl e3"
  have "fund_with_retry a w i addr =
      (Inl e3, snd (fundWallet a w i addr 1) @ fund_onFailedAttempt e1 @
               snd (fundWallet a w i addr 2) @ fund_onFailedAttempt e2 @
               snd (fundWallet a w i addr 3) @ fund_onFailedAttempt e3)"
    unfolding fund_with_retry_def
    by (rule pRetry_2_all_fail) (use all in blast)+
  then show "fst (fund_with_retry a w i addr) = Inl e3"
    and "length (filter is_submission (snd (fund_with_retry a w i addr))) = 3"
    and "filter is_ConsoleWarn (snd (fund_with_retry a w i addr)) =
        [ConsoleWarn ''fundWallet attempt failed:'' (message_or_err e1),
         ConsoleWarn ''fundWallet attempt failed:'' (message_or_err e2),
         ConsoleWarn ''fundWallet attempt failed:'' (message_or_err e3)]"
    by (simp_all add: fundWallet_submits_once fundWallet_no_warning fund_onFailedAttempt_def)
qed

theorem retry_policy_hook_counterexample:
  "fst (fundWallet (yargs cli_one env_ok) w_fund_rejected 0 ''0xA0'' 1) =
     Inl (JsError ''Error'' ''insufficient funds'') \<and>
   fst (fundWallet (yargs cli_one env_ok) w_fund_rejected 0 ''0xA0'' 2) =
     Inl (JsError ''Error'' ''insufficient funds'') \<and>
   fst (fundWallet (yargs cli_one env_ok) w_fund_rejected 0 ''0xA0'' 3) =
     Inl (JsError ''Error'' ''insufficient funds'') \<and>
   length (filter is_ConsoleWarn
             (snd (fund_with_retry (yargs cli_one env_ok) w_fund_rejected 0 ''0xA0''))) \<noteq> 2"
  by (simp add: model_defs input_defs)

theorem retry_policy_exhausted_witness:
  "fst (fundWallet (yargs cli_one env_ok) w_fund_rejected 0 ''0xA0'' 1) =
     Inl (JsError ''Error'' ''insufficient funds'') \<and>
   fst (fundWallet (yargs cli_one env_ok) w_fund_rejected 0 ''0xA0'' 2) =
     Inl (JsError ''Error'' ''insufficient funds'') \<and>
   fst (fundWallet (yargs cli_one env_ok) w_fund_rejected 0 ''0xA0'' 3) =
     Inl (JsError ''Error'' ''insufficient funds'') \<and>
   fst (fund_with_retry (yargs cli_one env_ok) w_fund_rejected 0 ''0xA0'') =
     Inl (JsError ''Error'' ''insufficient funds'') \<and>
   length (filter is_submission
             (snd (fund_with_retry (yargs cli_one env_ok) w_fund_rejected 0 ''0xA0''))) = 3 \<and>
   filter is_ConsoleWarn (snd (fund_with_retry (yargs cli_one env_ok) w_fund_rejected 0 ''0xA0'')) =
     [ConsoleWarn ''fundWallet attempt failed:'' ''insufficient funds'',
      ConsoleWarn ''fundWallet attempt failed:'' ''insufficient funds'',
      ConsoleWarn ''fundWallet attempt failed:'' ''insufficient funds'']"
proof -
  let ?a = "yargs cli_one env_ok"
  let ?e = "JsError ''Error'' ''insufficient funds''"
  have rejected: "fst (fundWallet ?a w_fund_rejected 0 ''0xA0'' 1) = Inl ?e \<and>
      fst (fundWallet ?a w_fund_rejected 0 ''0xA0'' 2) = Inl ?e \<and>
      fst (fundWallet ?a w_fund_rejected 0 ''0xA0'' 3) = Inl ?e"
    by (simp add: fundWallet_def Let_def input_defs)
  have msg: "message_or_err ?e = ''insufficient funds''"
    by (simp add: message_or_err_def)
  from retry_policy_exhausted [of ?a w_fund_rejected 0 "''0xA0''" ?e ?e ?e] rejected msg
  show ?thesis by simp
qed

text \<open>
  C4, as the code has it. A missing RPC endpoint, contract address or funder key ends the
  process with status 1 before anything else happens, and so does an error thrown while
  the provider or the funder wallet is constructed from them. Otherwise every error of
  wallet creation, funding or payload submission becomes an entry of \<open>results\<close> and the
  loop goes on; the exit status is 0 exactly when no write of wallets.json that the run
  reaches throws and the write of the summary does not throw, and it is 1 otherwise. A
  run that exits with status 0 has gone through all N iterations and has written the
  summary.
\<close>

theorem exit_status:
  "(config_missing c en \<longrightarrow>
      fst (program c en w) = 1 \<and> (\<exists>msg. snd (program c en w) = [ConsoleError msg []])) \<and>
   (\<not> config_missing c en \<and> \<not> constructed c en w \<longrightarrow>
      fst (program c en w) = 1 \<and> (\<exists>err. snd (program c en w) = [Uncaught err])) \<and>
   (\<not> config_missing c en \<and> constructed c en w \<longrightarrow>
      (fst (program c en w) = 0 \<longleftrightarrow>
         (\<forall>j. \<not> ledger_write_throws (yargs c en) en w j) \<and> writeFileSync_results w = None) \<and>
      (fst (program c en w) \<noteq> 0 \<longrightarrow> fst (program c en w) = 1) \<and>
      (fst (program c en w) = 0 \<longrightarrow>
         (\<exists>sm. summaries (snd (program c en w)) = [sm] \<and>
            map index (s_results sm) = [0..<nat (NUM (yargs c en))])))"
proof (intro conjI impI)
  assume "config_missing c en"
  then show "fst (program c en w) = 1" "\<exists>msg. snd (program c en w) = [ConsoleError msg []]"
    by (rule program_unconfigured)+
next
  assume "\<not> config_missing c en \<and> \<not> constructed c en w"
  then have "\<not> config_missing c en" "\<not> constructed c en w"
    by simp_all
  then show "fst (program c en w) = 1" "\<exists>err. snd (program c en w) = [Uncaught err]"
    by (rule program_unconstructed)+
next
  assume "\<not> config_missing c en \<and> constructed c en w"
  then have ready: "\<not> config_missing c en" "constructed c en w"
    by simp_all
  show status: "fst (program c en w) = 0 \<longleftrightarrow>
      (\<forall>j. \<not> ledger_write_throws (yargs c en) en w j) \<and> writeFileSync_results w = None"
    using main_throws [of "yargs c en" en w]
    by (auto simp: program_status_of_main [OF ready])
  show "fst (program c en w) = 1" if "fst (program c en w) \<noteq> 0"
    using that by (simp add: program_status_of_main [OF ready] split: if_splits)
  show "\<exists>sm. summaries (snd (program c en w)) = [sm] \<and>
      map index (s_results sm) = [0..<nat (NUM (yargs c en))]"
    if "fst (program c en w) = 0"
  proof -
    from that status
    have "\<forall>j. \<not> ledger_write_throws (yargs c en) en w j" "writeFileSync_results w = None"
      by simp_all
    from program_completes(2) [OF ready this] show ?thesis .
  qed
qed

theorem exit_status_counterexample:
  "\<not> config_missing cli_one env_ok \<and> constructed cli_one env_ok w_disk_full \<and>
   fst (program cli_one env_ok w_disk_full) = 1 \<and>
   summaries (snd (program cli_one env_ok w_disk_full)) = []"
  by (simp add: model_defs input_defs loop.simps)

theorem exit_status_witness:
  "config_missing cli_none env_no_rpc \<and> fst (program cli_none env_no_rpc w_ok) = 1 \<and>
   \<not> config_missing cli_one env_bad_key \<and> \<not> constructed cli_one env_bad_key w_ok \<and>
   fst (program cli_one env_bad_key w_ok) = 1 \<and>
   \<not> config_missing cli_three env_ok \<and> constructed cli_three env_ok w_mixed \<and>
   fst (program cli_three env_ok w_mixed) = 0 \<and>
   (\<exists>sm. summaries (snd (program cli_three env_ok w_mixed)) = [sm] \<and>
      map index (s_results sm) = [0, 1, 2]) \<and>
   \<not> config_missing cli_one env_ok \<and> constructed cli_one env_ok w_disk_full \<and>
   ledger_write_throws (yargs cli_one env_ok) env_ok w_disk_full 0 \<and>
   fst (program cli_one env_ok w_disk_full) = 1"
proof -
  have missing: "config_missing cli_none env_no_rpc"
    by (simp add: model_defs input_defs)
  have badkey: "\<not> config_missing cli_one env_bad_key \<and> \<not> constructed cli_one env_bad_key w_ok"
    by (simp add: model_defs input_defs)
  have mixed: "\<not> config_missing cli_three env_ok \<and> constructed cli_three env_ok w_mixed"
    by (simp add: model_defs input_defs)
  have full: "\<not> config_missing cli_one env_ok \<and> constructed cli_one env_ok w_disk_full"
    by (simp add: model_defs input_defs)
  have disk: "(\<forall>j. \<not> ledger_write_throws (yargs cli_three env_ok) env_ok w_mixed j) \<and>
      writeFileSync_results w_mixed = None"
    by (simp add: ledger_write_throws_def input_defs)
  have n: "nat (NUM (yargs cli_three env_ok)) = 3"
    by (simp add: NUM_def yargs_def or_default_def input_defs)
  have upt: "[0..<3] = [0, 1, 2::nat]"
    by (simp add: upt_rec)
  have throws: "ledger_write_throws (yargs cli_one env_ok) env_ok w_disk_full 0"
    by (simp add: ledger_write_throws_def model_defs input_defs)
  from exit_status [of cli_none env_no_rpc w_ok] missing
  have one: "fst (program cli_none env_no_rpc w_ok) = 1" by simp
  from exit_status [of cli_one env_bad_key w_ok] badkey
  have two: "fst (program cli_one env_bad_key w_ok) = 1" by blast
  from exit_status [of cli_three env_ok w_mixed] mixed disk
  have three: "fst (program cli_three env_ok w_mixed) = 0"
    by blast
  from exit_status [of cli_three env_ok w_mixed] mixed three n upt
  have four: "\<exists>sm. summaries (snd (program cli_three env_ok w_mixed)) = [sm] \<and>
      map index (s_results sm) = [0, 1, 2]"
    by simp
  from exit_status [of cli_one env_ok w_disk_full] full throws
  have five: "fst (program cli_one env_ok w_disk_full) = 1"
    by blast
  from missing badkey mixed full throws one two three four five show ?thesis
    by (intro conjI) (simp_all only: simp_thms)
qed

text \<open>
  C5, as the code has it. When HD mode is requested and MNEMONIC is absent, the missing
  seed phrase stops nothing before the loop: \<open>main\<close> goes through all N iterations, each
  of them fails in \<open>createWallet\<close> with the error "MNEMONIC required when --useHd is
  set.", which is reported on the console and recorded as a fail entry with step create,
  and nothing else happens in the loop; \<open>main\<close> then writes the summary, and throws only
  what that write throws. When moreover the three required values are present, the
  provider and the funder wallet are constructed and the write of the summary does not
  throw, the process exits with status 0 after doing exactly this.
\<close>

theorem missing_mnemonic_fails_each_iteration:
  assumes "USE_HD (yargs c en)" and "MNEMONIC en = None"
  shows "main (yargs c en) en w =
           (writeFileSync_results w,
            \<lparr> results = map (\<lambda>i. result_create i mnemonic_error) [0..<nat (NUM (yargs c en))],
              savedWallets = [],
              trace =
                replicate (nat (NUM (yargs c en)))
                  (ConsoleError ''Failed to create wallet:''
                     ''MNEMONIC required when --useHd is set.'') @
                (case writeFileSync_results w of
                   None \<Rightarrow>
                     [WriteResults
                        \<lparr> s_rpc = RPC_URL (yargs c en),
                          s_contract = CONTRACT_ADDRESS (yargs c en),
                          s_date = toISOString w, s_rateSeconds = RATE_SECONDS (yargs c en),
                          s_fundAmount = FUND_AMOUNT (yargs c en),
                          s_results = map (\<lambda>i. result_create i mnemonic_error)
                                        [0..<nat (NUM (yargs c en))] \<rparr>]
                 | Some err \<Rightarrow> []) \<rparr>) \<and>
         (\<not> config_missing c en \<and> constructed c en w \<and> writeFileSync_results w = None \<longrightarrow>
            fst (program c en w) = 0 \<and>
            snd (program c en w) = trace (snd (main (yargs c en) en w)))"
proof (intro conjI impI)
  show run: "main (yargs c en) en w =
           (writeFileSync_results w,
            \<lparr> results = map (\<lambda>i. result_create i mnemonic_error) [0..<nat (NUM (yargs c en))],
              savedWallets = [],
              trace =
                replicate (nat (NUM (yargs c en)))
                  (ConsoleError ''Failed to create wallet:''
                     ''MNEMONIC required when --useHd is set.'') @
                (case writeFileSync_results w of
                   None \<Rightarrow>
                     [WriteResults
                        \<lparr> s_rpc = RPC_URL (yargs c en),
                          s_contract = CONTRACT_ADDRESS (yargs c en),
                          s_date = toISOString w, s_rateSeconds = RATE_SECONDS (yargs c en),
                          s_fundAmount = FUND_AMOUNT (yargs c en),
                          s_results = map (\<lambda>i. result_create i mnemonic_error)
                                        [0..<nat (NUM (yargs c en))] \<rparr>]
                 | Some err \<Rightarrow> []) \<rparr>)"
    by (cases "writeFileSync_results w")
      (simp_all add: main_def loop_no_mnemonic [OF assms] emit_def summary_def)
  assume ready: "\<not> config_missing c en \<and> constructed c en w \<and> writeFileSync_results w = None"
  then have "program c en w = (0, trace (snd (main (yargs c en) en w)))"
    by (simp add: program_configured run)
  then show "fst (program c en w) = 0"
    and "snd (program c en w) = trace (snd (main (yargs c en) en w))"
    by simp_all
qed

theorem missing_mnemonic_counterexample:
  "USE_HD (yargs cli_hd env_ok) \<and> MNEMONIC env_ok = None \<and>
   program cli_hd env_ok w_ok =
     (0, [ConsoleError ''Failed to create wallet:'' ''MNEMONIC required when --useHd is set.'',
          ConsoleError ''Failed to create wallet:'' ''MNEMONIC required when --useHd is set.'',
          WriteResults
            \<lparr> s_rpc = ''https://mainnet.base.org'', s_contract = ''0xDD'',
              s_date = ''2025-01-01T00:00:00.000Z'', s_rateSeconds = Num 2,
              s_fundAmount = ''0.000002'',
              s_results =
                [\<lparr> index = 0, r_address = None, txHash = None, status = ''fail'',
                   step = Some ''create'',
                   error = Some ''Error: MNEMONIC required when --useHd is set.'' \<rparr>,
                 \<lparr> index = 1, r_address = None, txHash = None, status = ''fail'',
                   step = Some ''create'',
                   error = Some ''Error: MNEMONIC required when --useHd is set.'' \<rparr>] \<rparr>])"
  by (simp add: model_defs input_defs loop.simps)

theorem missing_mnemonic_fails_each_iteration_witness:
  "USE_HD (yargs cli_hd env_ok) \<and> MNEMONIC env_ok = None \<and>
   \<not> config_missing cli_hd env_ok \<and> constructed cli_hd env_ok w_ok \<and>
   writeFileSync_results w_ok = None \<and>
   fst (main (yargs cli_hd env_ok) env_ok w_ok) = None \<and>
   map step (results (snd (main (yargs cli_hd env_ok) env_ok w_ok))) =
     [Some ''create'', Some ''create''] \<and>
   fst (program cli_hd env_ok w_ok) = 0 \<and>
   length (snd (program cli_hd env_ok w_ok)) = 3"
proof -
  have hd: "USE_HD (yargs cli_hd env_ok)" "MNEMONIC env_ok = None"
    by (simp_all add: model_defs input_defs)
  have ready: "\<not> config_missing cli_hd env_ok \<and> constructed cli_hd env_ok w_ok \<and>
      writeFileSync_results w_ok = None"
    by (simp add: model_defs input_defs)
  have n: "nat (NUM (yargs cli_hd env_ok)) = 2"
    by (simp add: NUM_def yargs_def or_default_def input_defs)
  have upt: "[0..<2] = [0, 1::nat]"
    by (simp add: upt_rec)
  note run = missing_mnemonic_fails_each_iteration [OF hd, of w_ok]
  from run ready have status: "fst (program cli_hd env_ok w_ok) = 0"
    and same: "snd (program cli_hd env_ok w_ok) = trace (snd (main (yargs cli_hd env_ok) env_ok w_ok))"
    by blast+
  from run have pinned: "main (yargs cli_hd env_ok) env_ok w_ok =
      (writeFileSync_results w_ok,
       \<lparr> results = map (\<lambda>i. result_create i mnemonic_error) [0..<nat (NUM (yargs cli_hd env_ok))],
         savedWallets = [],
         trace =
           replicate (nat (NUM (yargs cli_hd env_ok)))
             (ConsoleError ''Failed to create wallet:''
                ''MNEMONIC required when --useHd is set.'') @
           (case writeFileSync_results w_ok of
              None \<Rightarrow>
                [WriteResults
                   \<lparr> s_rpc = RPC_URL (yargs cli_hd env_ok),
                     s_contract = CONTRACT_ADDRESS (yargs cli_hd env_ok),
                     s_date = toISOString w_ok, s_rateSeconds = RATE_SECONDS (yargs cli_hd env_ok),
                     s_fundAmount = FUND_AMOUNT (yargs cli_hd env_ok),
                     s_results = map (\<lambda>i. result_create i mnemonic_error)
                                   [0..<nat (NUM (yargs cli_hd env_ok))] \<rparr>]
            | Some err \<Rightarrow> []) \<rparr>)"
    by (rule conjunct1)
  from ready have written: "writeFileSync_results w_ok = None" by simp
  from pinned written n upt
  have "fst (main (yargs cli_hd env_ok) env_ok w_ok) = None"
    and "map step (results (snd (main (yargs cli_hd env_ok) env_ok w_ok))) =
      [Some ''create'', Some ''create'']"
    and "length (trace (snd (main (yargs cli_hd env_ok) env_ok w_ok))) = 3"
    by (simp_all add: result_create_def)
  with hd ready status same show ?thesis by simp
qed

text \<open>
  C6. When the wallet is created (and saved, if wallets are saved), funding succeeds and
  the payload submission fails, the iteration appends the entry with status fail, step
  store and no txHash, throws nothing, and ends with the rate delay, a call of \<open>sleep\<close>
  with \<open>RATE_SECONDS\<close> times 1000 milliseconds, which is at least one second when the
  configured rate is a finite number; the settle delay of one second has been applied
  before the submission. The loop then goes on with the next index.
\<close>

theorem payload_failure_recorded_and_paced:
  assumes "createWallet a en w i = Inr wl"
    and "SAVE_WALLETS a \<longrightarrow> writeFileSync_wallets w i = None"
    and "fst (fund_with_retry a w i (address wl)) = Inr fundRes"
    and "fst (sendStoreMessageTx a w i wl (message_of a i)) = Inl err"
  shows "\<exists>s' evs. iteration a en w i s = (None, s') \<and>
           results s' = results s @
             [\<lparr> index = i, r_address = Some (address wl), txHash = None, status = ''fail'',
                step = Some ''store'', error = Some (String_of err) \<rparr>] \<and>
           trace s' = trace s @ evs @ [Sleep (js_times (RATE_SECONDS a) (Num 1000))] \<and>
           Sleep (Num 1000) \<in> set evs \<and>
           (\<forall>r. rate a = Num r \<longrightarrow>
              js_times (RATE_SECONDS a) (Num 1000) = Num (max 1 r * 1000) \<and>
              1000 \<le> max 1 r * 1000) \<and>
           (int i < NUM a \<longrightarrow> loop a en w i s = loop a en w (Suc i) s')"
proof -
  from save_wallet_writes [OF assms(2), of wl s] obtain s1 evs1 where
    saved: "save_wallet a w i wl s = (None, s1)" "results s1 = results s"
      "trace s1 = trace s @ evs1"
    by (elim exE conjE)
  obtain evs2 where funded: "fund_with_retry a w i (address wl) = (Inr fundRes, evs2)"
    using assms(3) by (cases "fund_with_retry a w i (address wl)") simp
  obtain evs3 where sent: "sendStoreMessageTx a w i wl (message_of a i) = (Inl err, evs3)"
    using assms(4) by (cases "sendStoreMessageTx a w i wl (message_of a i)") simp
  let ?report = "ConsoleError (''storeMessage failed for '' @ address wl @ '':'')
                   (message_or_err err)"
  let ?s' = "store_step a w i wl (emit evs2 s1)"
  let ?evs = "evs1 @ evs2 @ [Sleep (Num 1000)] @ evs3 @ [?report]"
  have it: "iteration a en w i s = (None, ?s')"
    using assms(1) saved(1) funded by (simp add: iteration_def)
  show ?thesis
  proof (intro exI [of _ ?s'] exI [of _ ?evs] conjI impI allI)
    show "iteration a en w i s = (None, ?s')" by (rule it)
    show "results ?s' = results s @
             [\<lparr> index = i, r_address = Some (address wl), txHash = None, status = ''fail'',
                step = Some ''store'', error = Some (String_of err) \<rparr>]"
      using saved(2) sent by (simp add: store_step_def Let_def result_store_def)
    show "trace ?s' = trace s @ ?evs @ [Sleep (js_times (RATE_SECONDS a) (Num 1000))]"
      using saved(3) sent by (simp add: store_step_def Let_def)
    show "Sleep (Num 1000) \<in> set ?evs" by simp
    show "js_times (RATE_SECONDS a) (Num 1000) = Num (max 1 r * 1000)" if "rate a = Num r" for r
      using that by (rule RATE_SECONDS_finite(2))
    show "1000 \<le> max 1 r * 1000" if "rate a = Num r" for r
      using that by (rule RATE_SECONDS_finite(3))
    show "loop a en w i s = loop a en w (Suc i) ?s'" if "int i < NUM a"
      using loop_continues [OF it that] .
  qed
qed

theorem payload_failure_recorded_and_paced_witness:
  "createWallet (yargs cli_one env_ok) env_ok w_store_rejected 0 = Inr wallet_0 \<and>
   SAVE_WALLETS (yargs cli_one env_ok) \<and> writeFileSync_wallets w_store_rejected 0 = None \<and>
   fst (fund_with_retry (yargs cli_one env_ok) w_store_rejected 0 (address wallet_0)) =
     Inr ''0xF0'' \<and>
   fst (sendStoreMessageTx (yargs cli_one env_ok) w_store_rejected 0 wallet_0
          (message_of (yargs cli_one env_ok) 0)) =
     Inl (JsError ''Error'' ''execution reverted'') \<and>
   int 0 < NUM (yargs cli_one env_ok) \<and> rate (yargs cli_one env_ok) = Num 2 \<and>
   (\<exists>s' evs. iteration (yargs cli_one env_ok) env_ok w_store_rejected 0 init = (None, s') \<and>
      results s' =
        [\<lparr> index = 0, r_address = Some ''0xA0'', txHash = None, status = ''fail'',
           step = Some ''store'', error = Some ''Error: execution reverted'' \<rparr>] \<and>
      trace s' = evs @ [Sleep (Num 2000)] \<and> Sleep (Num 1000) \<in> set evs \<and>
      loop (yargs cli_one env_ok) env_ok w_store_rejected 0 init =
        loop (yargs cli_one env_ok) env_ok w_store_rejected (Suc 0) s')"
proof -
  let ?a = "yargs cli_one env_ok"
  have created: "createWallet ?a env_ok w_store_rejected 0 = Inr wallet_0"
    by (simp add: model_defs input_defs)
  have saving: "SAVE_WALLETS ?a" "writeFileSync_wallets w_store_rejected 0 = None"
    by (simp_all add: model_defs input_defs)
  then have saved: "SAVE_WALLETS ?a \<longrightarrow> writeFileSync_wallets w_store_rejected 0 = None"
    by simp
  have funded: "fst (fund_with_retry ?a w_store_rejected 0 (address wallet_0)) = Inr ''0xF0''"
    by (simp add: model_defs input_defs)
  have rejected: "fst (sendStoreMessageTx ?a w_store_rejected 0 wallet_0 (message_of ?a 0)) =
      Inl (JsError ''Error'' ''execution reverted'')"
    by (simp add: model_defs input_defs)
  have more: "int 0 < NUM ?a"
    by (simp add: model_defs input_defs)
  have rate: "rate ?a = Num 2"
    by (simp add: model_defs input_defs)
  from payload_failure_recorded_and_paced [OF created saved funded rejected, of init] more rate
  obtain s' evs where
    "iteration ?a env_ok w_store_rejected 0 init = (None, s')"
    "results s' = results init @
       [\<lparr> index = 0, r_address = Some (address wallet_0), txHash = None, status = ''fail'',
          step = Some ''store'',
          error = Some (String_of (JsError ''Error'' ''execution reverted'')) \<rparr>]"
    "trace s' = trace init @ evs @ [Sleep (js_times (RATE_SECONDS ?a) (Num 1000))]"
    "Sleep (Num 1000) \<in> set evs"
    "js_times (RATE_SECONDS ?a) (Num 1000) = Num (max 1 2 * 1000)"
    "loop ?a env_ok w_store_rejected 0 init = loop ?a env_ok w_store_rejected (Suc 0) s'"
    by auto
  then show ?thesis
    using created saving funded rejected more rate
    by (simp add: init_def wallet_0_def String_of_def)
qed

text \<open>
  C7. When the wallet is created (and saved, if wallets are saved) and funding fails
  after its retries, the iteration appends the entry with status fail and step fund,
  throws nothing, and causes no delay at all, neither the settle delay nor the rate
  delay, and no payload transaction; the loop goes on with the next index.
\<close>

theorem funding_failure_skips_delays:
  assumes "createWallet a en w i = Inr wl"
    and "SAVE_WALLETS a \<longrightarrow> writeFileSync_wallets w i = None"
    and "fst (fund_with_retry a w i (address wl)) = Inl err"
  shows "\<exists>s' evs. iteration a en w i s = (None, s') \<and>
           results s' = results s @
             [\<lparr> index = i, r_address = Some (address wl), txHash = None, status = ''fail'',
                step = Some ''fund'', error = Some (String_of err) \<rparr>] \<and>
           trace s' = trace s @ evs \<and> filter is_Sleep evs = [] \<and>
           filter is_WalletSend evs = [] \<and>
           (int i < NUM a \<longrightarrow> loop a en w i s = loop a en w (Suc i) s')"
proof -
  from save_wallet_writes [OF assms(2), of wl s] obtain s1 evs1 where
    saved: "save_wallet a w i wl s = (None, s1)" "results s1 = results s"
      "trace s1 = trace s @ evs1" "filter is_Sleep evs1 = []" "filter is_WalletSend evs1 = []"
    by (elim exE conjE)
  obtain evs2 where funded: "fund_with_retry a w i (address wl) = (Inl err, evs2)"
    using assms(3) by (cases "fund_with_retry a w i (address wl)") simp
  let ?last = "ConsoleError (''Funding failed for '' @ address wl @ '':'') (message_or_err err)"
  let ?s' = "push (result_fund i wl err) (emit (evs2 @ [?last]) s1)"
  have it: "iteration a en w i s = (None, ?s')"
    using assms(1) saved(1) funded by (simp add: iteration_def)
  have quiet: "filter is_Sleep evs2 = []"
    using fund_with_retry_no_sleep [of a w i "address wl"] funded by simp
  have nopayload: "filter is_WalletSend evs2 = []"
    using fund_with_retry_no_payload [of a w i "address wl"] funded by simp
  show ?thesis
  proof (intro exI [of _ ?s'] exI [of _ "evs1 @ evs2 @ [?last]"] conjI impI)
    show "iteration a en w i s = (None, ?s')" by (rule it)
    show "results ?s' = results s @
             [\<lparr> index = i, r_address = Some (address wl), txHash = None, status = ''fail'',
                step = Some ''fund'', error = Some (String_of err) \<rparr>]"
      using saved(2) by (simp add: result_fund_def)
    show "trace ?s' = trace s @ evs1 @ evs2 @ [?last]"
      using saved(3) by simp
    show "filter is_Sleep (evs1 @ evs2 @ [?last]) = []"
      using saved(4) quiet by simp
    show "filter is_WalletSend (evs1 @ evs2 @ [?last]) = []"
      using saved(5) nopayload by simp
    show "loop a en w i s = loop a en w (Suc i) ?s'" if "int i < NUM a"
      using loop_continues [OF it that] .
  qed
qed

theorem funding_failure_skips_delays_witness:
  "createWallet (yargs cli_one env_ok) env_ok w_fund_rejected 0 = Inr wallet_0 \<and>
   SAVE_WALLETS (yargs cli_one env_ok) \<and> writeFileSync_wallets w_fund_rejected 0 = None \<and>
   fst (fund_with_retry (yargs cli_one env_ok) w_fund_rejected 0 (address wallet_0)) =
     Inl (JsError ''Error'' ''insufficient funds'') \<and>
   int 0 < NUM (yargs cli_one env_ok) \<and>
   (\<exists>s' evs. iteration (yargs cli_one env_ok) env_ok w_fund_rejected 0 init = (None, s') \<and>
      results s' =
        [\<lparr> index = 0, r_address = Some ''0xA0'', txHash = None, status = ''fail'',
           step = Some ''fund'', error = Some ''Error: insufficient funds'' \<rparr>] \<and>
      trace s' = evs \<and> filter is_Sleep evs = [] \<and> filter is_WalletSend evs = [] \<and>
      loop (yargs cli_one env_ok) env_ok w_fund_rejected 0 init =
        loop (yargs cli_one env_ok) env_ok w_fund_rejected (Suc 0) s')"
proof -
  let ?a = "yargs cli_one env_ok"
  have created: "createWallet ?a env_ok w_fund_rejected 0 = Inr wallet_0"
    by (simp add: model_defs input_defs)
  have saving: "SAVE_WALLETS ?a" "writeFileSync_wallets w_fund_rejected 0 = None"
    by (simp_all add: model_defs input_defs)
  then have saved: "SAVE_WALLETS ?a \<longrightarrow> writeFileSync_wallets w_fund_rejected 0 = None"
    by simp
  have rejected: "fst (fund_with_retry ?a w_fund_rejected 0 (address wallet_0)) =
      Inl (JsError ''Error'' ''insufficient funds'')"
    by (simp add: model_defs input_defs)
  have more: "int 0 < NUM ?a"
    by (simp add: model_defs input_defs)
  from funding_failure_skips_delays [OF created saved rejected, of init] more
  obtain s' evs where
    "iteration ?a env_ok w_fund_rejected 0 init = (None, s')"
    "results s' = results init @
       [\<lparr> index = 0, r_address = Some (address wallet_0), txHash = None, status = ''fail'',
          step = Some ''fund'', error = Some (String_of (JsError ''Error'' ''insufficient funds'')) \<rparr>]"
    "trace s' = trace init @ evs" "filter is_Sleep evs = []" "filter is_WalletSend evs = []"
    "loop ?a env_ok w_fund_rejected 0 init = loop ?a env_ok w_fund_rejected (Suc 0) s'"
    by auto
  then show ?thesis
    using created saving rejected more
    by (simp add: init_def wallet_0_def String_of_def)
qed

text \<open>
  C8, at an input on which the code does not do what the claim says. The claim is that
  the rate delay is never below one second, whatever rate is configured. For a rate
  that is not a number (\<open>--rate abc\<close>) the option parser hands over \<open>NaN\<close>;
  \<open>Math.max(1, NaN)\<close> is \<open>NaN\<close>, so \<open>RATE_SECONDS\<close> is \<open>NaN\<close>, and after the settle
  delay of 1000 milliseconds the run calls \<open>sleep\<close> with \<open>NaN\<close>: no floor of one second
  is enforced.
\<close>

theorem rate_nan_has_no_floor:
  "cli_rate cli_rate_nan = Some NaN \<and>
   RATE_SECONDS (yargs cli_rate_nan env_ok) = NaN \<and>
   fst (program cli_rate_nan env_ok w_ok) = 0 \<and>
   filter is_Sleep (snd (program cli_rate_nan env_ok w_ok)) = [Sleep (Num 1000), Sleep NaN]"
  by (simp add: model_defs input_defs loop.simps)

text \<open>
  C9. With N = 0 the run saves no wallet, writes no wallet ledger and submits no funding
  or payload transaction. When the write of the summary does not throw, the summary is
  the only thing the run does: it is written once, with an empty results sequence.
\<close>

theorem zero_iterations_summary_only:
  assumes "NUM a = 0"
  shows "savedWallets (snd (main a en w)) = [] \<and>
         filter is_WriteWallets (trace (snd (main a en w))) = [] \<and>
         filter is_submission (trace (snd (main a en w))) = [] \<and>
         (writeFileSync_results w = None \<longrightarrow>
            main a en w =
              (None, \<lparr> results = [], savedWallets = [],
                       trace = [WriteResults
                                  \<lparr> s_rpc = RPC_URL a, s_contract = CONTRACT_ADDRESS a,
                                    s_date = toISOString w, s_rateSeconds = RATE_SECONDS a,
                                    s_fundAmount = FUND_AMOUNT a, s_results = [] \<rparr>] \<rparr>))"
proof -
  from assms
  have "loop a en w 0 \<lparr> results = [], savedWallets = [], trace = [] \<rparr> =
          (None, \<lparr> results = [], savedWallets = [], trace = [] \<rparr>)"
    by (simp add: loop.simps [of a en w 0])
  then show ?thesis
    by (simp add: main_def emit_def summary_def split: option.splits)
qed

theorem zero_iterations_summary_only_witness:
  "NUM (yargs (cli_none\<lparr> cli_num := Some 0 \<rparr>) env_ok) = 0 \<and>
   writeFileSync_results w_ok = None \<and>
   main (yargs (cli_none\<lparr> cli_num := Some 0 \<rparr>) env_ok) env_ok w_ok =
     (None, \<lparr> results = [], savedWallets = [],
              trace = [WriteResults
                         \<lparr> s_rpc = ''https://mainnet.base.org'', s_contract = ''0xDD'',
                           s_date = ''2025-01-01T00:00:00.000Z'', s_rateSeconds = Num 2,
                           s_fundAmount = ''0.000002'', s_results = [] \<rparr>] \<rparr>)"
proof -
  let ?a = "yargs (cli_none\<lparr> cli_num := Some 0 \<rparr>) env_ok"
  have n: "NUM ?a = 0"
    by (simp add: NUM_def yargs_def cli_none_def or_default_def)
  have disk: "writeFileSync_results w_ok = None"
    by (simp add: w_ok_def)
  from zero_iterations_summary_only [OF n, of env_ok w_ok] disk n show ?thesis
    by (simp add: RPC_URL_def CONTRACT_ADDRESS_def RATE_SECONDS_def FUND_AMOUNT_def yargs_def
        cli_none_def env_ok_def or_default_def or_env_def w_ok_def)
qed

text \<open>
  C10. Every entry of \<open>results\<close> has status ok exactly when it carries a txHash and
  neither step nor error; it has status fail exactly when it carries a step among
  create, fund and store together with an error string; and it carries an address
  exactly when its step is not create, that is exactly when \<open>createWallet\<close> returned a
  wallet at the entry's index.
\<close>

theorem result_field_correspondence:
  assumes "r \<in> set (results (snd (main a en w)))"
  shows "(status r = ''ok'' \<longleftrightarrow> txHash r \<noteq> None \<and> step r = None \<and> error r = None) \<and>
         (status r = ''fail'' \<longleftrightarrow>
            step r \<in> {Some ''create'', Some ''fund'', Some ''store''} \<and> error r \<noteq> None) \<and>
         (r_address r \<noteq> None \<longleftrightarrow> step r \<noteq> Some ''create'') \<and>
         (r_address r \<noteq> None \<longleftrightarrow> (\<exists>wl. createWallet a en w (index r) = Inr wl))"
  using assms main_results_wf [of a en w] result_wf_fields [of a en w r] by blast

theorem result_field_correspondence_witness:
  "fund_failure_entry \<in> set (results (snd (main (yargs cli_three env_ok) env_ok w_mixed))) \<and>
   (status fund_failure_entry = ''ok'' \<longleftrightarrow>
      txHash fund_failure_entry \<noteq> None \<and> step fund_failure_entry = None \<and>
      error fund_failure_entry = None) \<and>
   (status fund_failure_entry = ''fail'' \<longleftrightarrow>
      step fund_failure_entry \<in> {Some ''create'', Some ''fund'', Some ''store''} \<and>
      error fund_failure_entry \<noteq> None) \<and>
   (r_address fund_failure_entry \<noteq> None \<longleftrightarrow> step fund_failure_entry \<noteq> Some ''create'') \<and>
   (r_address fund_failure_entry \<noteq> None \<longleftrightarrow>
      (\<exists>wl. createWallet (yargs cli_three env_ok) env_ok w_mixed (index fund_failure_entry) =
              Inr wl))"
proof -
  have "results (snd (main (yargs cli_three env_ok) env_ok w_mixed)) =
          [\<lparr> index = 0, r_address = None, txHash = None, status = ''fail'',
             step = Some ''create'', error = Some ''Error: no entropy'' \<rparr>,
           fund_failure_entry,
           \<lparr> index = 2, r_address = Some ''0xA2'', txHash = Some ''0xB2'', status = ''ok'',
             step = None, error = None \<rparr>]"
    by (simp add: model_defs input_defs loop.simps fund_failure_entry_def)
  then have "fund_failure_entry \<in> set (results (snd (main (yargs cli_three env_ok) env_ok w_mixed)))"
    by simp
  from this result_field_correspondence [OF this] show ?thesis
    by (intro conjI) blast+
qed

end
